theory Spec2Isabelle
  imports Complex_Main
begin

section \<open>Python values\<close>

text \<open>
  The values that travel through \<^verbatim>\<open>scripts/tss.py\<close> are decoded JSON documents.
  \<open>JNull\<close> is Python's \<^verbatim>\<open>None\<close>; a JSON object is an association list in
  insertion order. The wire protocol of the service only carries integers, so numbers
  are \<open>int\<close>. Strings are held as UTF-8 byte sequences.
\<close>

datatype jvalue =
    JNull
  | JBool bool
  | JInt int
  | JStr string
  | JList "jvalue list"
  | JDict "(string \<times> jvalue) list"

text \<open>
  Every exception the modelled code can raise. \<open>RequestException\<close> is what
  \<^verbatim>\<open>requests.get/post/put\<close> raise on a transport failure (connection refused, timeout);
  \<open>InvalidURL\<close> what they raise for a URL they do not send to;
  \<open>JSONDecodeError\<close> is raised by \<^verbatim>\<open>resp.json()\<close> on a body that is not JSON.
  \<open>RequestTssFailed\<close> is \<^verbatim>\<open>Exception('request tss failed')\<close> and
  \<open>UploadImageFileFailed\<close> is \<^verbatim>\<open>Exception('upload image file failed')\<close>.
  \<open>ValueError\<close> is what the interface raises when a handler returns a number of
  values other than the number of its outputs.
\<close>

datatype error =
    RequestException
  | InvalidURL
  | JSONDecodeError
  | KeyError jvalue
  | TypeError
  | AttributeError
  | ValueError
  | OSError
  | RequestTssFailed
  | UploadImageFileFailed

text \<open>Truth value testing: \<^verbatim>\<open>if v:\<close>, \<^verbatim>\<open>not v\<close>, \<^verbatim>\<open>a or b\<close>.\<close>

fun truthy :: "jvalue \<Rightarrow> bool" where
  "truthy JNull = False"
| "truthy (JBool b) = b"
| "truthy (JInt i) = (i \<noteq> 0)"
| "truthy (JStr s) = (s \<noteq> [])"
| "truthy (JList xs) = (xs \<noteq> [])"
| "truthy (JDict d) = (d \<noteq> [])"

text \<open>\<^verbatim>\<open>v[k]\<close> with a string key: only a dict can be subscripted by a string.\<close>

fun subscript :: "jvalue \<Rightarrow> string \<Rightarrow> error + jvalue" where
  "subscript (JDict d) k = (case map_of d k of None \<Rightarrow> Inl (KeyError (JStr k)) | Some v \<Rightarrow> Inr v)"
| "subscript v k = Inl TypeError"

text \<open>\<^verbatim>\<open>v.get(k)\<close>: a method of dicts only; a missing key gives \<^verbatim>\<open>None\<close>.\<close>

fun dict_get :: "jvalue \<Rightarrow> string \<Rightarrow> error + jvalue" where
  "dict_get (JDict d) k = (case map_of d k of None \<Rightarrow> Inr JNull | Some v \<Rightarrow> Inr v)"
| "dict_get v k = Inl AttributeError"

text \<open>\<^verbatim>\<open>v == n\<close> for an integer literal \<open>n\<close> (a bool compares as 0 or 1).\<close>

fun eq_int :: "jvalue \<Rightarrow> int \<Rightarrow> bool" where
  "eq_int (JInt i) n = (i = n)"
| "eq_int (JBool b) n = ((if b then 1 else 0) = n)"
| "eq_int v n = False"

text \<open>
  \<^verbatim>\<open>for item in v\<close>: a list yields its elements, a dict its keys, a string its
  characters; anything else is not iterable.
\<close>

fun py_iter :: "jvalue \<Rightarrow> error + jvalue list" where
  "py_iter (JList xs) = Inr xs"
| "py_iter (JDict d) = Inr (map (\<lambda>kv. JStr (fst kv)) d)"
| "py_iter (JStr s) = Inr (map (\<lambda>c. JStr [c]) s)"
| "py_iter v = Inl TypeError"

definition startswith :: "string \<Rightarrow> string \<Rightarrow> bool" where
  "startswith s p = (take (length p) s = p)"

text \<open>\<^verbatim>\<open>sub in s\<close> on strings: \<open>sub\<close> occurs in \<open>s\<close> as a contiguous run.\<close>

fun str_contains :: "string \<Rightarrow> string \<Rightarrow> bool" where
  "str_contains sub [] = (sub = [])"
| "str_contains sub (c # s) = (startswith (c # s) sub \<or> str_contains sub s)"

subsection \<open>Dictionaries in insertion order\<close>

text \<open>
  A Python dict built by the code keeps its keys in the order of first insertion. Keys
  are hashable values; \<^verbatim>\<open>True\<close> and \<^verbatim>\<open>1\<close> (and \<^verbatim>\<open>False\<close> and \<^verbatim>\<open>0\<close>) are the same
  key, which \<open>key_norm\<close> expresses.
\<close>

type_synonym pydict = "(jvalue \<times> jvalue) list"

fun hashable :: "jvalue \<Rightarrow> bool" where
  "hashable (JList xs) = False"
| "hashable (JDict d) = False"
| "hashable v = True"

fun key_norm :: "jvalue \<Rightarrow> jvalue" where
  "key_norm (JBool b) = JInt (if b then 1 else 0)"
| "key_norm v = v"

definition key_eq :: "jvalue \<Rightarrow> jvalue \<Rightarrow> bool" where
  "key_eq a b = (key_norm a = key_norm b)"

text \<open>\<^verbatim>\<open>d[k] = v\<close>: a present key keeps its place (and its key object), a new one goes last.\<close>

fun dict_set :: "jvalue \<Rightarrow> jvalue \<Rightarrow> pydict \<Rightarrow> pydict" where
  "dict_set k v [] = [(k, v)]"
| "dict_set k v ((k', v') # d) =
     (if key_eq k' k then (k', v) # d else (k', v') # dict_set k v d)"

text \<open>\<^verbatim>\<open>del d[k]\<close>, used where the key is known to be present.\<close>

fun dict_del :: "jvalue \<Rightarrow> pydict \<Rightarrow> pydict" where
  "dict_del k [] = []"
| "dict_del k ((k', v') # d) = (if key_eq k' k then d else (k', v') # dict_del k d)"

text \<open>\<^verbatim>\<open>k in d\<close> for a hashable \<open>k\<close>.\<close>

definition dict_mem :: "jvalue \<Rightarrow> pydict \<Rightarrow> bool" where
  "dict_mem k d = list_ex (\<lambda>kv. key_eq (fst kv) k) d"

fun dict_lookup :: "pydict \<Rightarrow> jvalue \<Rightarrow> jvalue option" where
  "dict_lookup [] k = None"
| "dict_lookup ((k', v') # d) k = (if key_eq k' k then Some v' else dict_lookup d k)"

text \<open>\<^verbatim>\<open>list(d.keys())\<close>.\<close>

definition dict_keys :: "pydict \<Rightarrow> jvalue list" where
  "dict_keys d = map fst d"

text \<open>\<^verbatim>\<open>d.update(other)\<close>: the entries of \<open>other\<close> are stored one by one, in order.\<close>

fun dict_update :: "pydict \<Rightarrow> pydict \<Rightarrow> pydict" where
  "dict_update d [] = d"
| "dict_update d ((k, v) # other) = dict_update (dict_set k v d) other"

section \<open>Configuration: \<^verbatim>\<open>modules.shared.opts\<close> and \<^verbatim>\<open>cmd_opts\<close>\<close>

text \<open>
  The credential stored under the option \<^verbatim>\<open>tu-token\<close>: a token string and an expiry
  time in seconds since the epoch. Times are real numbers (the floats of
  \<^verbatim>\<open>time.time()\<close>, idealised).
\<close>

record credential =
  token :: string
  expire :: real

text \<open>
  An option that \<^verbatim>\<open>hasattr\<close>/\<^verbatim>\<open>getattr\<close> may find absent is an \<open>option\<close>.
  \<open>worker\<close> is the command-line flag \<^verbatim>\<open>cmd_opts.worker\<close>.
\<close>

record config =
  xz_ext_enable :: "bool option"
  tu_token :: "credential option"
  worker :: bool

text \<open>\<^verbatim>\<open>tss.enable()\<close>.\<close>

definition enable :: "config \<Rightarrow> bool" where
  "enable cfg =
     (let is_worker = worker cfg
      in (case xz_ext_enable cfg of None \<Rightarrow> False | Some flag \<Rightarrow> flag) \<and> \<not> is_worker)"

text \<open>
  \<^verbatim>\<open>tss.get_tushuashua_token()\<close>, as a function of the configuration and of the clock
  reading \<^verbatim>\<open>time.time()\<close>. It reads nothing else and sends nothing.
\<close>

definition get_tushuashua_token :: "config \<Rightarrow> real \<Rightarrow> string" where
  "get_tushuashua_token cfg time =
     (case tu_token cfg of
        Some t \<Rightarrow>
          if time > expire t - 60 then ''''
          else if \<not> startswith (token t) ''Bearer'' then ''Bearer '' @ token t
          else token t
      | None \<Rightarrow> '''')"

section \<open>The world \<^verbatim>\<open>scripts/tss.py\<close> runs in\<close>

text \<open>
  What \<^verbatim>\<open>requests\<close> hands back: \<open>resp_ok\<close> is the truth value of the response
  object (\<^verbatim>\<open>if resp:\<close> holds for an HTTP status below 400), \<open>resp_json\<close> is what
  \<^verbatim>\<open>resp.json()\<close> decodes, \<open>None\<close> when the body is not JSON and the call raises.
\<close>

record response =
  resp_ok :: bool
  resp_json :: "jvalue option"

datatype outcome = Raises | Responds response

text \<open>The network's answer to one request: how long the call took, and its outcome.\<close>

record reply =
  latency :: real
  outcome :: outcome

text \<open>
  The requests the module sends. \<open>Get\<close> and \<open>Put\<close> carry the URL;
  \<open>PostOssFiles\<close> is the POST to \<^verbatim>\<open>HOST + '/v1/oss-files'\<close> (with the
  \<^verbatim>\<open>persistent\<close> flag of its body), \<open>PostCnet\<close> the POST of the job descriptor to
  \<^verbatim>\<open>HOST + '/v1/img2img-tasks/cnet'\<close>, \<open>GetImgTask\<close> the GET of
  \<^verbatim>\<open>HOST + f'/v1/img-tasks/{task_id}'\<close>. Headers and per-call timeouts are not
  recorded: no branch of the code depends on them.
\<close>

datatype request =
    Get string
  | GetImgTask jvalue
  | PostOssFiles bool
  | Put string
  | PostCnet jvalue

text \<open>
  The state the functions read and change. \<open>net\<close> answers the \<open>n\<close>-th request sent;
  \<open>sent\<close> is the log of requests so far; \<open>clock\<close> is \<^verbatim>\<open>time.time()\<close>;
  \<open>cache\<close> is the module-level dict \<^verbatim>\<open>cache\<close>; \<open>cn_models\<close> is
  \<^verbatim>\<open>global_state.cn_models\<close>; \<open>files\<close> are the files written.
  \<open>url_basename\<close> stands for \<^verbatim>\<open>os.path.basename(urlparse(url).path)\<close> and
  \<open>writable\<close> tells whether \<^verbatim>\<open>open(filename, "wb+")\<close> succeeds; \<open>scan_models\<close> is
  the content \<^verbatim>\<open>global_state.update_cn_models()\<close> gives \<^verbatim>\<open>cn_models\<close>.
  \<open>valid_location\<close> tells whether \<^verbatim>\<open>requests\<close> accepts the authority of a URL (the
  host name is one it can encode, the port a number below 65536). \<open>HOST\<close> is taken to
  be a URL \<^verbatim>\<open>requests\<close> sends to, as its default is.
\<close>

record world =
  HOST :: string
  BUCKET :: string
  conf :: config
  net :: "nat \<Rightarrow> reply"
  sent :: "request list"
  clock :: real
  cache :: "string \<rightharpoonup> jvalue"
  cn_models :: pydict
  files :: "string list"
  url_basename :: "string \<Rightarrow> string"
  writable :: "string \<Rightarrow> bool"
  scan_models :: pydict
  valid_location :: "string \<Rightarrow> bool"

text \<open>A computation that may raise and may change the world.\<close>

type_synonym 'a io = "world \<Rightarrow> (error + 'a) \<times> world"

definition io_return :: "'a \<Rightarrow> 'a io" where
  "io_return x w = (Inr x, w)"

definition io_raise :: "error \<Rightarrow> 'a io" where
  "io_raise e w = (Inl e, w)"

definition io_lift :: "error + 'a \<Rightarrow> 'a io" where
  "io_lift r w = (r, w)"

definition io_bind :: "'a io \<Rightarrow> ('a \<Rightarrow> 'b io) \<Rightarrow> 'b io" where
  "io_bind m f w = (case m w of (Inl e, w') \<Rightarrow> (Inl e, w') | (Inr x, w') \<Rightarrow> f x w')"

definition io_read :: "(world \<Rightarrow> 'a) \<Rightarrow> 'a io" where
  "io_read f w = (Inr (f w), w)"

text \<open>Sequencing of pure steps that may raise.\<close>

definition and_then :: "error + 'a \<Rightarrow> ('a \<Rightarrow> error + 'b) \<Rightarrow> error + 'b" where
  "and_then r f = (case r of Inl e \<Rightarrow> Inl e | Inr x \<Rightarrow> f x)"

fun map_result :: "('a \<Rightarrow> error + 'b) \<Rightarrow> 'a list \<Rightarrow> error + 'b list" where
  "map_result f [] = Inr []"
| "map_result f (x # xs) = and_then (f x) (\<lambda>y. and_then (map_result f xs) (\<lambda>ys. Inr (y # ys)))"

text \<open>
  One call of \<^verbatim>\<open>requests\<close>: the request is logged, the clock advances by the time the
  call took (a clock does not run backwards), and the call raises or returns a response.
\<close>

definition http :: "request \<Rightarrow> response io" where
  "http rq w =
     (let r = net w (length (sent w));
          w' = w\<lparr>sent := sent w @ [rq], clock := clock w + max 0 (latency r)\<rparr>
      in case outcome r of
           Raises \<Rightarrow> (Inl RequestException, w')
         | Responds resp \<Rightarrow> (Inr resp, w'))"

text \<open>
  \<^verbatim>\<open>url.lstrip()\<close>: the white space characters of Python, a string being the bytes of
  its UTF-8 encoding. \<open>space_len s\<close> is the number of bytes of the white space
  character \<open>s\<close> begins with, \<open>0\<close> when it begins with none.
\<close>

definition is_space :: "char \<Rightarrow> bool" where
  "is_space c =
     (c \<in> set [CHR 0x20, CHR 0x09, CHR 0x0A, CHR 0x0B, CHR 0x0C, CHR 0x0D,
                CHR 0x1C, CHR 0x1D, CHR 0x1E, CHR 0x1F])"

definition space_len :: "string \<Rightarrow> nat" where
  "space_len s =
     (if s = [] then 0
      else if is_space (hd s) then 1
      else if take 2 s \<in> set [[CHR 0xC2, CHR 0x85], [CHR 0xC2, CHR 0xA0]] then 2
      else if take 3 s \<in> set
          ([[CHR 0xE1, CHR 0x9A, CHR 0x80], [CHR 0xE2, CHR 0x81, CHR 0x9F],
            [CHR 0xE3, CHR 0x80, CHR 0x80]] @
           map (\<lambda>b. [CHR 0xE2, CHR 0x80, b])
             [CHR 0x80, CHR 0x81, CHR 0x82, CHR 0x83, CHR 0x84, CHR 0x85, CHR 0x86, CHR 0x87,
              CHR 0x88, CHR 0x89, CHR 0x8A, CHR 0xA8, CHR 0xA9, CHR 0xAF]) then 3
      else 0)"

function lstrip :: "string \<Rightarrow> string" where
  "lstrip s = (if space_len s = 0 then s else lstrip (drop (space_len s) s))"
  by pat_completeness auto
termination
proof (relation "measure length")
  show "wf (measure length)" by simp
next
  fix s :: string
  assume "space_len s \<noteq> 0"
  then have "s \<noteq> []" by (auto simp: space_len_def)
  with \<open>space_len s \<noteq> 0\<close> show "(drop (space_len s) s, s) \<in> measure length" by simp
qed

text \<open>
  The URLs \<^verbatim>\<open>requests\<close> sends a request to. It removes leading white space; a URL
  without a scheme raises \<^verbatim>\<open>MissingSchema\<close>, one with a scheme other than
  \<^verbatim>\<open>http\<close> or \<^verbatim>\<open>https\<close> (in any case) raises \<^verbatim>\<open>InvalidSchema\<close>, one without a host
  raises \<^verbatim>\<open>InvalidURL\<close>, each before anything is sent. The host is what stands between
  the user information and the port in the authority, which ends at the first
  \<^verbatim>\<open>/\<close>, \<^verbatim>\<open>?\<close>, \<^verbatim>\<open>#\<close> or backslash; an authority \<^verbatim>\<open>requests\<close> does not accept
  (\<open>valid_location\<close>) raises \<^verbatim>\<open>InvalidURL\<close> as well.
\<close>

definition lower :: "char \<Rightarrow> char" where
  "lower c =
     (case map_of (zip ''ABCDEFGHIJKLMNOPQRSTUVWXYZ'' ''abcdefghijklmnopqrstuvwxyz'') c of
        Some l \<Rightarrow> l
      | None \<Rightarrow> c)"

definition url_host :: "string \<Rightarrow> string" where
  "url_host rest =
     (let authority = takeWhile (\<lambda>c. c \<notin> set [CHR ''/'', CHR ''?'', CHR ''#'', CHR 0x5C]) rest;
          hostport = rev (takeWhile (\<lambda>c. c \<noteq> CHR ''@'') (rev authority))
      in takeWhile (\<lambda>c. c \<noteq> CHR '':'') hostport)"

definition sendable_url :: "world \<Rightarrow> string \<Rightarrow> bool" where
  "sendable_url w url =
     (let u = lstrip url; l = map lower u
      in if startswith l ''https://'' then url_host (drop 8 u) \<noteq> [] \<and> valid_location w url
         else if startswith l ''http://'' then url_host (drop 7 u) \<noteq> [] \<and> valid_location w url
         else False)"

text \<open>
  A call whose URL comes out of a JSON document: \<^verbatim>\<open>requests\<close> raises for a URL that
  is not a string (its \<^verbatim>\<open>str()\<close> is no such URL) and for a string it does not send to,
  before anything is sent. \<open>InvalidURL\<close> stands for the three exceptions above.
\<close>

fun http_url :: "(string \<Rightarrow> request) \<Rightarrow> jvalue \<Rightarrow> response io" where
  "http_url method (JStr url) w =
     (if sendable_url w url then http (method url) w else io_raise InvalidURL w)"
| "http_url method v w = io_raise InvalidURL w"

text \<open>\<^verbatim>\<open>time.sleep(secs)\<close>.\<close>

definition sleep :: "real \<Rightarrow> unit io" where
  "sleep secs w = (Inr (), w\<lparr>clock := clock w + max 0 secs\<rparr>)"

text \<open>\<^verbatim>\<open>resp.json()\<close>.\<close>

definition json_of :: "response \<Rightarrow> error + jvalue" where
  "json_of resp = (case resp_json resp of None \<Rightarrow> Inl JSONDecodeError | Some j \<Rightarrow> Inr j)"

text \<open>\<^verbatim>\<open>cache.get(k)\<close>.\<close>

definition cache_get :: "world \<Rightarrow> string \<Rightarrow> jvalue" where
  "cache_get w k = (case cache w k of None \<Rightarrow> JNull | Some v \<Rightarrow> v)"

section \<open>The catalog: \<^verbatim>\<open>request_tss\<close>, \<^verbatim>\<open>request_mudules\<close>, \<^verbatim>\<open>request_models\<close>\<close>

definition request_tss :: "string \<Rightarrow> jvalue io" where
  "request_tss api =
     io_bind (http (Get api)) (\<lambda>resp.
       if resp_ok resp then
         io_bind (io_lift (json_of resp)) (\<lambda>json_d.
         io_bind (io_lift (subscript json_d ''code'')) (\<lambda>code.
           if eq_int code 200 then io_lift (subscript json_d ''data'')
           else io_return JNull))
       else io_return JNull)"

text \<open>
  The first half of both fetch functions: the fresh data when it is truthy (stored in
  the cache under \<open>key\<close>), the cached entry otherwise; \<^verbatim>\<open>Exception('request tss failed')\<close>
  when that is falsy too.
\<close>

definition fetch_or_cached :: "string \<Rightarrow> string \<Rightarrow> jvalue io" where
  "fetch_or_cached api key =
     io_bind (request_tss api) (\<lambda>data0.
     io_bind (\<lambda>w. if \<not> truthy data0 then (Inr (cache_get w key), w)
                   else (Inr data0, w\<lparr>cache := (cache w)(key \<mapsto> data0)\<rparr>)) (\<lambda>data.
       if \<not> truthy data then io_raise RequestTssFailed else io_return data))"

text \<open>The items \<^verbatim>\<open>for item in data['items'][category]\<close> runs over.\<close>

definition feed_items :: "string \<Rightarrow> jvalue \<Rightarrow> error + jvalue list" where
  "feed_items category data =
     and_then (subscript data ''items'') (\<lambda>items.
     and_then (subscript items category) py_iter)"



text \<open>
  \<^verbatim>\<open>dict((item['display_value'], item['real_value']) for item in ...)\<close>: the pairs are
  computed and stored one item at a time; an unhashable key raises.
\<close>

fun dict_of_items :: "jvalue list \<Rightarrow> pydict \<Rightarrow> error + pydict" where
  "dict_of_items [] d = Inr d"
| "dict_of_items (item # items) d =
     and_then (subscript item ''display_value'') (\<lambda>k.
     and_then (subscript item ''real_value'') (\<lambda>v.
       if hashable k then dict_of_items items (dict_set k v d) else Inl TypeError))"

text \<open>The display value of the empty selection in the raw feed, U+65E0 in UTF-8.\<close>

definition wu :: string where
  "wu = [CHR 0xE6, CHR 0x97, CHR 0xA0]"

text \<open>Lines 80 to 84 of \<^verbatim>\<open>request_models\<close>: the mapping built from the data.\<close>

definition models_of :: "jvalue \<Rightarrow> error + pydict" where
  "models_of data =
     and_then (feed_items ''4'' data) (\<lambda>its.
     and_then (dict_of_items its []) (\<lambda>d.
       let d1 = (if dict_mem (JStr wu) d then dict_del (JStr wu) d else d)
       in Inr (dict_update d1 [(JStr ''None'', JNull)])))"

definition request_models :: "pydict io" where
  "request_models =
     io_bind (io_read HOST) (\<lambda>host.
     io_bind (fetch_or_cached (host @ ''/v1/samplers/category?categorys=4'') ''models'')
       (\<lambda>data. io_lift (models_of data)))"

section \<open>Upload, poll, submit: \<^verbatim>\<open>upload_image_data\<close>, \<^verbatim>\<open>waite_task\<close>, \<^verbatim>\<open>run_annotator\<close>\<close>

text \<open>
  \<^verbatim>\<open>upload_image_data(image_data, persistent)\<close>. The PNG bytes of the image only travel
  in the bodies of the two requests, so the image is not a parameter here. Falling off
  the end of the function returns \<^verbatim>\<open>None\<close>.
\<close>

definition upload_image_data :: "bool \<Rightarrow> jvalue io" where
  "upload_image_data persistent =
     io_bind (http (PostOssFiles persistent)) (\<lambda>resp.
       if resp_ok resp then
         io_bind (io_lift (json_of resp)) (\<lambda>json_d.
         io_bind (io_lift (subscript json_d ''code'')) (\<lambda>code.
           if eq_int code 200 then
             io_bind (io_lift (subscript json_d ''data'')) (\<lambda>data.
             io_bind (io_lift (subscript data ''url'')) (\<lambda>url.
             io_bind (http_url Put url) (\<lambda>resp2.
               if resp_ok resp2 then io_lift (subscript data ''oss_key'')
               else io_return JNull)))
           else io_return JNull))
       else io_return JNull)"

text \<open>
  What one response of the status endpoint means to the loop of \<^verbatim>\<open>waite_task\<close>
  (lines 172 to 178): \<open>Some data\<close> when the loop returns \<open>data\<close>, \<open>None\<close> when it
  goes round again.
\<close>

definition poll_result :: "response \<Rightarrow> error + jvalue option" where
  "poll_result resp =
     (if resp_ok resp then
        and_then (json_of resp) (\<lambda>json_d.
        and_then (subscript json_d ''code'') (\<lambda>code.
          if eq_int code 200 then
            and_then (subscript json_d ''data'') (\<lambda>data.
            and_then (subscript data ''status'') (\<lambda>status.
              if eq_int status 10 \<or> eq_int status (- 1) then Inr (Some data)
              else Inr None))
          else Inr None))
      else Inr None)"

text \<open>One round of the loop: sleep two seconds, ask, look at the answer.\<close>

definition poll :: "jvalue \<Rightarrow> jvalue option io" where
  "poll task_id =
     io_bind (sleep 2) (\<lambda>_.
     io_bind (http (GetImgTask task_id)) (\<lambda>resp. io_lift (poll_result resp)))"

text \<open>
  The \<^verbatim>\<open>while\<close> loop of \<^verbatim>\<open>waite_task\<close>; \<open>start\<close> is the clock reading taken before
  it. When the condition fails the function ends without a \<^verbatim>\<open>return\<close>, which gives
  \<^verbatim>\<open>None\<close>.
\<close>

function waite_loop :: "jvalue \<Rightarrow> real \<Rightarrow> real \<Rightarrow> jvalue io" where
  "waite_loop task_id timeout start w =
     (if clock w - start < timeout then
        (case poll task_id w of
           (Inl e, w') \<Rightarrow> (Inl e, w')
         | (Inr (Some data), w') \<Rightarrow> (Inr data, w')
         | (Inr None, w') \<Rightarrow> waite_loop task_id timeout start w')
      else (Inr JNull, w))"
  by pat_completeness auto
termination
proof (relation "measure (\<lambda>(task_id, timeout, start, w). nat \<lceil>timeout - (clock w - start)\<rceil>)")
  show "wf (measure (\<lambda>(task_id, timeout, start, w). nat \<lceil>timeout - (clock w - start)\<rceil>))"
    by simp
next
  fix task_id :: jvalue and timeout start :: real and w w' :: world
    and x :: "error + jvalue option" and y :: "jvalue option"
  assume run: "clock w - start < timeout" and step: "(x, w') = poll task_id w"
  have "clock w + 2 \<le> clock w'"
    using step
    by (auto simp: poll_def sleep_def http_def io_bind_def io_lift_def Let_def
        split: outcome.splits sum.splits prod.splits)
  then have "timeout - (clock w' - start) \<le> timeout - (clock w - start) - 2"
    by simp
  then have "\<lceil>timeout - (clock w' - start)\<rceil> \<le> \<lceil>timeout - (clock w - start)\<rceil> - 2"
    by (metis ceiling_diff_numeral ceiling_mono)
  moreover have "0 < \<lceil>timeout - (clock w - start)\<rceil>"
    using run by simp
  ultimately show "((task_id, timeout, start, w'), (task_id, timeout, start, w))
      \<in> measure (\<lambda>(task_id, timeout, start, w). nat \<lceil>timeout - (clock w - start)\<rceil>)"
    by simp
qed

definition waite_task :: "jvalue \<Rightarrow> real \<Rightarrow> jvalue io" where
  "waite_task task_id timeout w = (let start = clock w in waite_loop task_id timeout start w)"

text \<open>\<^verbatim>\<open>os.path.join(a, b)\<close> (POSIX) on two components; \<open>b\<close> must be a string.\<close>

definition path_join :: "string \<Rightarrow> string \<Rightarrow> string" where
  "path_join a b =
     (if startswith b ''/'' then b
      else if a = [] \<or> last a = CHR ''/'' then a @ b
      else a @ ''/'' @ b)"

fun os_path_join :: "string \<Rightarrow> jvalue \<Rightarrow> error + string" where
  "os_path_join a (JStr b) = Inr (path_join a b)"
| "os_path_join a v = Inl TypeError"

text \<open>\<^verbatim>\<open>res.get('hig_images') or res.get('images')\<close>.\<close>

definition select_images :: "jvalue \<Rightarrow> error + jvalue" where
  "select_images res =
     and_then (dict_get res ''hig_images'') (\<lambda>hig.
       if truthy hig then Inr hig else dict_get res ''images'')"

text \<open>
  \<^verbatim>\<open>images[0]\<close> on a truthy value: the first element of a list, the first character
  of a string (its leading byte and the continuation bytes after it); a dict decoded
  from JSON has no key \<^verbatim>\<open>0\<close>; a number cannot be subscripted.
\<close>

fun index0 :: "jvalue \<Rightarrow> error + jvalue" where
  "index0 (JList (x # xs)) = Inr x"
| "index0 (JStr (c # s)) =
     Inr (JStr (c # takeWhile (\<lambda>b. 128 \<le> (of_char b :: nat) \<and> (of_char b :: nat) < 192) s))"
| "index0 (JDict d) = Inl (KeyError (JInt 0))"
| "index0 v = Inl TypeError"

text \<open>
  The URL the artifact is downloaded from (lines 207 to 209): \<open>None\<close> when
  \<^verbatim>\<open>images\<close> is falsy and nothing is downloaded.
\<close>

definition image_url_of :: "jvalue \<Rightarrow> error + jvalue option" where
  "image_url_of res =
     and_then (select_images res) (\<lambda>images.
       if truthy images then and_then (index0 images) (\<lambda>image_url. Inr (Some image_url))
       else Inr None)"

text \<open>Lines 212 to 217: the file is written under \<^verbatim>\<open>tmp\<close> and its name returned.\<close>

definition save_artifact :: "string \<Rightarrow> jvalue io" where
  "save_artifact image_url w =
     (let filename = path_join ''tmp'' (url_basename w image_url)
      in if writable w filename then (Inr (JStr filename), w\<lparr>files := files w @ [filename]\<rparr>)
         else (Inl OSError, w))"

text \<open>
  Lines 210 to 217: \<^verbatim>\<open>requests.get(image_url, timeout=10)\<close> and what follows it. A
  value that is no URL \<^verbatim>\<open>requests\<close> sends to raises with nothing sent.
\<close>

fun download :: "jvalue \<Rightarrow> jvalue io" where
  "download (JStr image_url) =
     io_bind (http_url Get (JStr image_url)) (\<lambda>resp.
       if resp_ok resp then save_artifact image_url else io_return JNull)"
| "download v = io_raise InvalidURL"

text \<open>The job descriptor \<^verbatim>\<open>data\<close> of lines 189 to 200.\<close>

definition job_descriptor ::
  "string \<Rightarrow> string \<Rightarrow> jvalue \<Rightarrow> jvalue \<Rightarrow> jvalue \<Rightarrow> jvalue \<Rightarrow> jvalue \<Rightarrow> jvalue \<Rightarrow> jvalue \<Rightarrow> jvalue
     \<Rightarrow> jvalue" where
  "job_descriptor image_path mask_path modul pres pthr_a pthr_b t2i_w t2i_h pp rm =
     JDict [
       (''image'', JStr image_path),
       (''mask'', JStr mask_path),
       (''module'', modul),
       (''annotator_resolution'', pres),
       (''pthr_a'', pthr_a),
       (''pthr_b'', pthr_b),
       (''t2i_w'', t2i_w),
       (''t2i_h'', t2i_h),
       (''pp'', pp),
       (''rm'', rm)]"

text \<open>
  \<^verbatim>\<open>tss.run_annotator(image, module, pres, pthr_a, pthr_b, t2i_w, t2i_h, pp, rm)\<close>.
  The two arrays of \<open>image\<close> only travel as the bodies of the uploads. The result is
  the name of the downloaded file, or \<^verbatim>\<open>None\<close>.
\<close>

definition run_annotator ::
  "jvalue \<Rightarrow> jvalue \<Rightarrow> jvalue \<Rightarrow> jvalue \<Rightarrow> jvalue \<Rightarrow> jvalue \<Rightarrow> jvalue \<Rightarrow> jvalue \<Rightarrow> jvalue io" where
  "run_annotator modul pres pthr_a pthr_b t2i_w t2i_h pp rm =
     io_bind (upload_image_data False) (\<lambda>image_key.
     io_bind (upload_image_data False) (\<lambda>mask_key.
       if \<not> truthy image_key \<or> \<not> truthy mask_key then io_raise UploadImageFileFailed
       else
         io_bind (io_read BUCKET) (\<lambda>bucket.
         io_bind (io_lift (os_path_join bucket image_key)) (\<lambda>image_path.
         io_bind (io_lift (os_path_join bucket mask_key)) (\<lambda>mask_path.
           let data = job_descriptor image_path mask_path modul pres pthr_a pthr_b
                        t2i_w t2i_h pp rm
           in
           io_bind (http (PostCnet data)) (\<lambda>resp.
             if resp_ok resp then
               io_bind (io_lift (json_of resp)) (\<lambda>json_d.
               io_bind (io_lift (subscript json_d ''code'')) (\<lambda>code.
                 if eq_int code 200 then
                   io_bind (io_lift (subscript json_d ''data'')) (\<lambda>d.
                   io_bind (io_lift (subscript d ''task_id'')) (\<lambda>task_id.
                   io_bind (waite_task task_id 300) (\<lambda>res.
                     if truthy res then
                       io_bind (io_lift (image_url_of res)) (\<lambda>selected.
                         case selected of
                           Some image_url \<Rightarrow> download image_url
                         | None \<Rightarrow> io_return JNull)
                     else io_return JNull)))
                 else io_return JNull))
             else io_return JNull))))))"

section \<open>The editor group: \<^verbatim>\<open>scripts/controlnet_ui/controlnet_ui_group.py\<close>\<close>

text \<open>
  \<^verbatim>\<open>gr.update(**kwargs)\<close>: the keyword arguments given, each absent (\<open>None\<close>) or
  present. \<^verbatim>\<open>value=None\<close> is \<open>u_value = Some\<close> of the type's null.
\<close>

record 'v gr_update =
  u_label :: "jvalue option"
  u_value :: "'v option"
  u_choices :: "jvalue list option"
  u_minimum :: "jvalue option"
  u_maximum :: "jvalue option"
  u_step :: "jvalue option"
  u_visible :: "bool option"
  u_interactive :: "bool option"

definition gr_update :: "'v gr_update" where
  "gr_update = \<lparr>u_label = None, u_value = None, u_choices = None, u_minimum = None,
     u_maximum = None, u_step = None, u_visible = None, u_interactive = None\<rparr>"

text \<open>\<^verbatim>\<open>k in d\<close>: an unhashable \<open>k\<close> raises.\<close>

definition py_in :: "jvalue \<Rightarrow> pydict \<Rightarrow> error + bool" where
  "py_in k d = (if hashable k then Inr (dict_mem k d) else Inl TypeError)"

text \<open>\<^verbatim>\<open>global_state.update_cn_models()\<close> rebuilds \<^verbatim>\<open>cn_models\<close> from the model folders.\<close>

definition update_cn_models :: "unit io" where
  "update_cn_models w = (Inr (), w\<lparr>cn_models := scan_models w\<rparr>)"

text \<open>
  \<^verbatim>\<open>refresh_all_models(*inputs)\<close>; \<open>dd\<close> is \<^verbatim>\<open>inputs[0]\<close>, the value of the model
  dropdown. The result is \<^verbatim>\<open>gr.Dropdown.update(value=selected, choices=...)\<close>.
\<close>

definition refresh_all_models :: "jvalue \<Rightarrow> jvalue gr_update io" where
  "refresh_all_models dd =
     io_bind (io_read conf) (\<lambda>cfg.
       if enable cfg then
         io_bind (\<lambda>w. (Inr (), w\<lparr>cn_models := []\<rparr>)) (\<lambda>_.
         io_bind request_models (\<lambda>models.
         io_bind (\<lambda>w. (Inr (), w\<lparr>cn_models := dict_update (cn_models w) models\<rparr>)) (\<lambda>_.
         io_bind (io_lift (py_in dd models)) (\<lambda>found.
           let selected = (if found then dd else JStr ''None'') in
           io_bind (io_read cn_models) (\<lambda>cn.
             io_return (gr_update\<lparr>u_value := Some selected, u_choices := Some (dict_keys cn)\<rparr>))))))
       else
         io_bind update_cn_models (\<lambda>_.
         io_bind (io_read cn_models) (\<lambda>cn0.
         io_bind (io_lift (py_in dd cn0)) (\<lambda>found.
           let selected = (if found then dd else JStr ''None'') in
           io_bind (io_read cn_models) (\<lambda>cn.
             io_return (gr_update\<lparr>u_value := Some selected, u_choices := Some (dict_keys cn)\<rparr>))))))"

text \<open>
  The argument \<^verbatim>\<open>json_pose_callback\<close> of a preprocessor: \<open>Some JsonAcceptorAccept\<close>
  is the bound method \<^verbatim>\<open>json_acceptor.accept\<close>, \<open>None\<close> is \<^verbatim>\<open>None\<close>.
\<close>

datatype callback = JsonAcceptorAccept

text \<open>The arguments one call of a preprocessor receives.\<close>

record 'a invocation =
  inv_img :: 'a
  inv_res :: jvalue
  inv_thr_a :: jvalue
  inv_thr_b :: jvalue
  inv_json_pose_callback :: "callback option"

text \<open>
  What a preprocessor does with its arguments: the result, the flag \<^verbatim>\<open>is_image\<close>, and
  the JSON string it hands to its callback, if it calls it.
\<close>

type_synonym 'a preprocessor = "'a invocation \<Rightarrow> 'a \<times> bool \<times> string option"

text \<open>The value of the input image component: \<^verbatim>\<open>image["image"]\<close> and \<^verbatim>\<open>image["mask"]\<close>.\<close>

record 'a input_image =
  image :: 'a
  mask :: 'a

text \<open>
  The collaborators of the editor group that are not part of these two files, over arrays
  of type \<open>'a\<close>: \<^verbatim>\<open>global_state.get_module_basename\<close>, the tables
  \<^verbatim>\<open>preprocessor_sliders_config\<close>, \<^verbatim>\<open>flag_preprocessor_resolution\<close> and
  \<^verbatim>\<open>model_free_preprocessors\<close> of \<^verbatim>\<open>scripts.processor\<close>, the preprocessors the group
  was built with, and the array operations. \<open>blank_mask m\<close> is
  \<^verbatim>\<open>(m[:, :, 0] <= 5).all() or (m[:, :, 0] >= 250).all()\<close>, \<open>channel0 m\<close> is
  \<^verbatim>\<open>m[:, :, 0]\<close>, \<open>with_alpha c m\<close> is
  \<^verbatim>\<open>np.concatenate([c, m[:, :, 0:1]], axis=2)\<close>, \<open>ignore_noninpaint_mask\<close> is the option
  \<^verbatim>\<open>controlnet_ignore_noninpaint_mask\<close>, \<open>open_image\<close> is
  \<^verbatim>\<open>np.array(Image.open(image_file))\<close>, \<open>None\<close> when it raises.
\<close>

record 'a externals =
  get_module_basename :: "string \<Rightarrow> string"
  preprocessor_sliders_config :: "string \<rightharpoonup> jvalue list"
  flag_preprocessor_resolution :: string
  model_free_preprocessors :: "string list"
  preprocessors :: "string \<rightharpoonup> 'a preprocessor"
  HWC3 :: "'a \<Rightarrow> 'a"
  blank_mask :: "'a \<Rightarrow> bool"
  channel0 :: "'a \<Rightarrow> 'a"
  with_alpha :: "'a \<Rightarrow> 'a \<Rightarrow> 'a"
  ignore_noninpaint_mask :: bool
  pixel_perfect_resolution :: "'a \<Rightarrow> jvalue \<Rightarrow> jvalue \<Rightarrow> jvalue \<Rightarrow> jvalue"
  visualize_inpaint_mask :: "'a \<Rightarrow> 'a"
  clip_vision_visualization :: "'a \<Rightarrow> 'a"
  open_image :: "string \<Rightarrow> 'a option"

subsection \<open>\<^verbatim>\<open>build_sliders\<close>\<close>

text \<open>\<^verbatim>\<open>gr.update(visible=False, interactive=False)\<close> and \<^verbatim>\<open>gr.update(visible=True)\<close>.\<close>

definition hidden :: "jvalue gr_update" where
  "hidden = gr_update\<lparr>u_visible := Some False, u_interactive := Some False\<rparr>"

definition shown :: "jvalue gr_update" where
  "shown = gr_update\<lparr>u_visible := Some True\<rparr>"

text \<open>The body of the loop over \<^verbatim>\<open>preprocessor_sliders_config[module]\<close>.\<close>

fun slider_update :: "string \<Rightarrow> bool \<Rightarrow> jvalue \<Rightarrow> error + jvalue gr_update" where
  "slider_update flag pp (JDict slider_config) =
     and_then (subscript (JDict slider_config) ''name'') (\<lambda>name.
       let visible = (if name = JStr flag then \<not> pp else True) in
       and_then (subscript (JDict slider_config) ''value'') (\<lambda>val.
       and_then (subscript (JDict slider_config) ''min'') (\<lambda>mn.
       and_then (subscript (JDict slider_config) ''max'') (\<lambda>mx.
         Inr (gr_update\<lparr>
           u_label := Some name,
           u_value := Some val,
           u_minimum := Some mn,
           u_maximum := Some mx,
           u_step := Some (case map_of slider_config ''step'' of Some st \<Rightarrow> st | None \<Rightarrow> JInt 1),
           u_visible := Some visible,
           u_interactive := Some visible\<rparr>)))))"
| "slider_update flag pp v = Inr hidden"

text \<open>
  \<^verbatim>\<open>build_sliders(module, pp)\<close>. Its results go, in order, to the resolution slider,
  the two threshold sliders, the advanced group, the model dropdown and the refresh
  button.
\<close>

definition build_sliders :: "'a externals \<Rightarrow> string \<Rightarrow> bool \<Rightarrow> error + jvalue gr_update list" where
  "build_sliders ext module0 pp =
     (let modul = get_module_basename ext module0 in
      and_then
        (case preprocessor_sliders_config ext modul of
           None \<Rightarrow>
             Inr [gr_update\<lparr>
                    u_label := Some (JStr (flag_preprocessor_resolution ext)),
                    u_value := Some (JInt 512),
                    u_minimum := Some (JInt 64),
                    u_maximum := Some (JInt 2048),
                    u_step := Some (JInt 1),
                    u_visible := Some (\<not> pp),
                    u_interactive := Some (\<not> pp)\<rparr>,
                  hidden, hidden, shown]
         | Some configs \<Rightarrow>
             and_then (map_result (slider_update (flag_preprocessor_resolution ext) pp) configs)
               (\<lambda>sliders. Inr (sliders @ replicate (3 - length sliders) hidden @ [shown])))
        (\<lambda>grs.
          if modul \<in> set (model_free_preprocessors ext) then
            Inr (grs @ [gr_update\<lparr>u_visible := Some False, u_value := Some (JStr ''None'')\<rparr>,
                        gr_update\<lparr>u_visible := Some False\<rparr>])
          else Inr (grs @ [shown, shown])))"

subsection \<open>\<^verbatim>\<open>run_annotator\<close> of the editor group\<close>

text \<open>
  The three results of \<^verbatim>\<open>run_annotator\<close>: the update of \<^verbatim>\<open>generated_image\<close>, the update
  of \<^verbatim>\<open>preprocessor_preview\<close>, and the JSON string given to
  \<^verbatim>\<open>self.openpose_editor.update\<close>.
\<close>

record 'a preview =
  generated_image :: "'a option gr_update"
  preprocessor_preview :: "bool gr_update"
  openpose_json :: string

text \<open>The result returned when there is no image, or no file came back from the service.\<close>

definition no_preview :: "'a preview" where
  "no_preview = \<lparr>generated_image = gr_update\<lparr>u_value := Some None, u_visible := Some True\<rparr>,
     preprocessor_preview = gr_update, openpose_json = []\<rparr>"

definition is_openpose :: "string \<Rightarrow> bool" where
  "is_openpose modul = str_contains ''openpose'' modul"

text \<open>
  Lines 604 to 656: the call the local strategy makes, as the resolved module, the
  preprocessor found under it and the arguments it is called with.
  \<^verbatim>\<open>self.preprocessors[module]\<close> raises for a module that is not registered.
\<close>

definition local_call ::
  "'a externals \<Rightarrow> 'a input_image \<Rightarrow> string \<Rightarrow> jvalue \<Rightarrow> jvalue \<Rightarrow> jvalue \<Rightarrow> jvalue \<Rightarrow> jvalue
     \<Rightarrow> bool \<Rightarrow> jvalue \<Rightarrow> error + (string \<times> 'a preprocessor \<times> 'a invocation)" where
  "local_call ext img_in module0 pres pthr_a pthr_b t2i_w t2i_h pp rm =
     (let img0 = HWC3 ext (image img_in);
          has_mask = \<not> blank_mask ext (mask img_in);
          img = (if str_contains ''inpaint'' module0 then
                   with_alpha ext (HWC3 ext (image img_in)) (mask img_in)
                 else if has_mask \<and> \<not> ignore_noninpaint_mask ext then
                   HWC3 ext (channel0 ext (mask img_in))
                 else img0);
          modul = get_module_basename ext module0
      in case preprocessors ext modul of
           None \<Rightarrow> Inl (KeyError (JStr modul))
         | Some preprocessor \<Rightarrow>
             let pres1 = (if pp then pixel_perfect_resolution ext img t2i_h t2i_w rm else pres)
             in Inr (modul, preprocessor,
                  \<lparr>inv_img = img, inv_res = pres1, inv_thr_a = pthr_a, inv_thr_b = pthr_b,
                   inv_json_pose_callback =
                     (if is_openpose modul then Some JsonAcceptorAccept else None)\<rparr>))"

text \<open>
  Lines 658 to 680: what \<^verbatim>\<open>run_annotator\<close> returns once the preprocessor, called with
  \<open>call\<close>, has returned \<open>(result0, is_image0)\<close> and has handed \<open>emitted\<close> to its
  callback. \<^verbatim>\<open>json_acceptor.value\<close> is the empty string unless the acceptor was passed
  and called.
\<close>

definition finish_local ::
  "'a externals \<Rightarrow> string \<Rightarrow> 'a invocation \<Rightarrow> 'a \<times> bool \<times> string option \<Rightarrow> 'a preview" where
  "finish_local ext modul call returned =
     (case returned of (result0, is_image0, emitted) \<Rightarrow>
        let json_value = (case inv_json_pose_callback call of
                            None \<Rightarrow> []
                          | Some accept \<Rightarrow> (case emitted of None \<Rightarrow> [] | Some j \<Rightarrow> j));
            clip = str_contains ''clip'' modul;
            result = (if clip then clip_vision_visualization ext result0 else result0);
            is_image = (if clip then True else is_image0)
        in if is_image then
             \<lparr>generated_image = gr_update\<lparr>
                    u_value := Some (Some (visualize_inpaint_mask ext result)),
                    u_visible := Some True, u_interactive := Some False\<rparr>,
              preprocessor_preview = gr_update\<lparr>u_value := Some True\<rparr>,
              openpose_json = json_value\<rparr>
           else
             \<lparr>generated_image = gr_update\<lparr>u_value := Some None, u_visible := Some True\<rparr>,
              preprocessor_preview = gr_update\<lparr>u_value := Some True\<rparr>,
              openpose_json = json_value\<rparr>)"

text \<open>The local strategy: the preprocessor is called with the arguments of the call.\<close>

definition run_local ::
  "'a externals \<Rightarrow> 'a input_image \<Rightarrow> string \<Rightarrow> jvalue \<Rightarrow> jvalue \<Rightarrow> jvalue \<Rightarrow> jvalue \<Rightarrow> jvalue
     \<Rightarrow> bool \<Rightarrow> jvalue \<Rightarrow> error + 'a preview" where
  "run_local ext img_in module0 pres pthr_a pthr_b t2i_w t2i_h pp rm =
     and_then (local_call ext img_in module0 pres pthr_a pthr_b t2i_w t2i_h pp rm)
       (\<lambda>(modul, preprocessor, inv). Inr (finish_local ext modul inv (preprocessor inv)))"

text \<open>\<^verbatim>\<open>os.remove(image_file)\<close>.\<close>

definition os_remove :: "string \<Rightarrow> unit io" where
  "os_remove f w = (if f \<in> set (files w) then (Inr (), w\<lparr>files := remove1 f (files w)\<rparr>)
                    else (Inl OSError, w))"

text \<open>
  The remote strategy, lines 581 to 602. When the downloaded file does not open as an
  image, \<^verbatim>\<open>Image.open\<close> raises (an \<^verbatim>\<open>OSError\<close>) and the file is not removed.
\<close>

definition run_remote ::
  "'a externals \<Rightarrow> string \<Rightarrow> jvalue \<Rightarrow> jvalue \<Rightarrow> jvalue \<Rightarrow> jvalue \<Rightarrow> jvalue
     \<Rightarrow> bool \<Rightarrow> jvalue \<Rightarrow> 'a preview io" where
  "run_remote ext module0 pres pthr_a pthr_b t2i_w t2i_h pp rm =
     io_bind (run_annotator (JStr module0) pres pthr_a pthr_b t2i_w t2i_h (JBool pp) rm)
       (\<lambda>image_file.
          case image_file of
            JStr filename \<Rightarrow>
              if filename = [] then io_return no_preview
              else
                (case open_image ext filename of
                   None \<Rightarrow> io_raise OSError
                 | Some opened \<Rightarrow>
                     let result = visualize_inpaint_mask ext opened in
                     io_bind (os_remove filename) (\<lambda>_.
                       io_return \<lparr>generated_image = gr_update\<lparr>
                           u_value := Some (Some result),
                           u_visible := Some True, u_interactive := Some False\<rparr>,
                         preprocessor_preview = gr_update\<lparr>u_value := Some True\<rparr>,
                         openpose_json = []\<rparr>))
          | _ \<Rightarrow> io_return no_preview)"

text \<open>
  \<^verbatim>\<open>run_annotator(image, module, pres, pthr_a, pthr_b, t2i_w, t2i_h, pp, rm)\<close> of the
  editor group. \<open>None\<close> is the image component without a value.
\<close>

definition ui_run_annotator ::
  "'a externals \<Rightarrow> 'a input_image option \<Rightarrow> string \<Rightarrow> jvalue \<Rightarrow> jvalue \<Rightarrow> jvalue \<Rightarrow> jvalue \<Rightarrow> jvalue
     \<Rightarrow> bool \<Rightarrow> jvalue \<Rightarrow> 'a preview io" where
  "ui_run_annotator ext img_opt module0 pres pthr_a pthr_b t2i_w t2i_h pp rm =
     (case img_opt of
        None \<Rightarrow> io_return no_preview
      | Some img_in \<Rightarrow>
          io_bind (io_read conf) (\<lambda>cfg.
            if enable cfg then run_remote ext module0 pres pthr_a pthr_b t2i_w t2i_h pp rm
            else io_lift (run_local ext img_in module0 pres pthr_a pthr_b t2i_w t2i_h pp rm)))"

subsection \<open>The components and the two events\<close>

text \<open>
  The values of the components the two handlers read and write. The handler of
  \<^verbatim>\<open>trigger_preprocessor.click\<close> reads the nine inputs registered at lines 684 to 698
  and writes \<^verbatim>\<open>generated_image\<close>, \<^verbatim>\<open>preprocessor_preview\<close> and the outputs of the pose
  editor; the handler of \<^verbatim>\<open>module.change\<close> writes the six outputs of lines 540 to 547.
\<close>

record 'a components =
  c_input_image :: "'a input_image option"
  c_module :: string
  c_model :: jvalue
  c_model_visible :: bool
  c_processor_res :: jvalue
  c_threshold_a :: jvalue
  c_threshold_b :: jvalue
  c_width :: jvalue
  c_height :: jvalue
  c_pixel_perfect :: bool
  c_resize_mode :: jvalue
  c_generated_image :: "'a option"
  c_preprocessor_preview :: bool
  c_pose_json :: string

text \<open>An update changes the value of a component only when it carries one.\<close>

definition new_value :: "'v gr_update \<Rightarrow> 'v \<Rightarrow> 'v" where
  "new_value u old = (case u_value u of None \<Rightarrow> old | Some v \<Rightarrow> v)"

definition new_visible :: "'v gr_update \<Rightarrow> bool \<Rightarrow> bool" where
  "new_visible u old = (case u_visible u of None \<Rightarrow> old | Some v \<Rightarrow> v)"

definition click_trigger_preprocessor :: "'a externals \<Rightarrow> 'a components \<Rightarrow> 'a components io" where
  "click_trigger_preprocessor ext c =
     io_bind (ui_run_annotator ext (c_input_image c) (c_module c) (c_processor_res c)
                (c_threshold_a c) (c_threshold_b c) (c_width c) (c_height c)
                (c_pixel_perfect c) (c_resize_mode c))
       (\<lambda>out. io_return (c\<lparr>
          c_generated_image := new_value (generated_image out) (c_generated_image c),
          c_preprocessor_preview := new_value (preprocessor_preview out) (c_preprocessor_preview c),
          c_pose_json := openpose_json out\<rparr>))"

text \<open>
  \<^verbatim>\<open>module.change\<close> when the change has picked \<open>new_module\<close>: the fifth result of
  \<^verbatim>\<open>build_sliders\<close> goes to the model dropdown. (The sliders' own state is not kept
  here.)
\<close>

definition change_module :: "'a externals \<Rightarrow> string \<Rightarrow> 'a components \<Rightarrow> error + 'a components" where
  "change_module ext new_module c =
     and_then (build_sliders ext new_module (c_pixel_perfect c)) (\<lambda>grs.
       if length grs = 6 then
         Inr (c\<lparr>c_module := new_module,
                c_model := new_value (grs ! 4) (c_model c),
                c_model_visible := new_visible (grs ! 4) (c_model_visible c)\<rparr>)
       else Inl ValueError)"

section \<open>Notions the properties are stated with\<close>



text \<open>The reply the next request sent from world \<open>w\<close> gets, and the one after it.\<close>

definition next_reply :: "world \<Rightarrow> reply" where
  "next_reply w = net w (length (sent w))"

definition second_reply :: "world \<Rightarrow> reply" where
  "second_reply w = net w (Suc (length (sent w)))"

text \<open>The requests a computation added to the log.\<close>

definition sent_by :: "'a io \<Rightarrow> world \<Rightarrow> request list" where
  "sent_by m w = drop (length (sent w)) (sent (snd (m w)))"

fun is_PostCnet :: "request \<Rightarrow> bool" where
  "is_PostCnet (PostCnet d) = True"
| "is_PostCnet rq = False"

text \<open>
  The registration phase of an upload succeeds when the POST returns a truthy response
  whose JSON envelope has code 200; the second phase when the PUT returns a truthy
  response.
\<close>

definition registration_ok :: "reply \<Rightarrow> bool" where
  "registration_ok r =
     (case outcome r of
        Raises \<Rightarrow> False
      | Responds resp \<Rightarrow>
          resp_ok resp \<and>
          (case resp_json resp of
             None \<Rightarrow> False
           | Some json_d \<Rightarrow>
               (case subscript json_d ''code'' of Inl e \<Rightarrow> False | Inr code \<Rightarrow> eq_int code 200)))"

definition put_ok :: "reply \<Rightarrow> bool" where
  "put_ok r = (case outcome r of Raises \<Rightarrow> False | Responds resp \<Rightarrow> resp_ok resp)"

text \<open>An upload started in world \<open>w\<close> fails in one of its two phases.\<close>

definition upload_fails :: "world \<Rightarrow> bool" where
  "upload_fails w = (\<not> (registration_ok (next_reply w) \<and> put_ok (second_reply w)))"

text \<open>
  The status a poll reply carries, when it carries one: the response is truthy, decodes
  as JSON with envelope code 200, and its \<^verbatim>\<open>data\<close> has a \<^verbatim>\<open>status\<close>.
\<close>

definition polled_status :: "reply \<Rightarrow> jvalue option" where
  "polled_status r =
     (case outcome r of
        Raises \<Rightarrow> None
      | Responds resp \<Rightarrow>
          if resp_ok resp then
            (case resp_json resp of
               None \<Rightarrow> None
             | Some json_d \<Rightarrow>
                 (case subscript json_d ''code'' of
                    Inl e \<Rightarrow> None
                  | Inr code \<Rightarrow>
                      if eq_int code 200 then
                        (case subscript json_d ''data'' of
                           Inl e \<Rightarrow> None
                         | Inr data \<Rightarrow>
                             (case subscript data ''status'' of
                                Inl e \<Rightarrow> None
                              | Inr status \<Rightarrow> Some status))
                      else None))
          else None)"

definition terminal :: "jvalue \<Rightarrow> bool" where
  "terminal status = (eq_int status 10 \<or> eq_int status (- 1))"

text \<open>The job's status is never seen to be terminal in a reply: the claim's condition.\<close>

definition never_terminal :: "reply \<Rightarrow> bool" where
  "never_terminal r = (case polled_status r of None \<Rightarrow> True | Some status \<Rightarrow> \<not> terminal status)"

text \<open>A poll raises: the request itself, the decoding of the body, or a missing key.\<close>

definition poll_raises :: "reply \<Rightarrow> bool" where
  "poll_raises r =
     (case outcome r of Raises \<Rightarrow> True | Responds resp \<Rightarrow> isl (poll_result resp))"

text \<open>
  The time elapsed since \<open>start\<close> when the loop tests its condition for the \<open>k\<close>-th
  time after a test at elapsed time \<open>t\<close>, the next request being the \<open>n\<close>-th: each
  round sleeps two seconds and waits for its reply.
\<close>

fun test_time :: "(nat \<Rightarrow> reply) \<Rightarrow> nat \<Rightarrow> real \<Rightarrow> nat \<Rightarrow> real" where
  "test_time nt n t 0 = t"
| "test_time nt n t (Suc k) = test_time nt (Suc n) (t + 2 + max 0 (latency (nt n))) k"

section \<open>Auxiliary notions and example worlds\<close>

text \<open>The keys of a dict as Python compares them.\<close>

definition norm_keys :: "pydict \<Rightarrow> jvalue list" where
  "norm_keys d = map (\<lambda>kv. key_norm (fst kv)) d"

text \<open>
  Replies: a response with HTTP status 200 and a JSON body, a response with an HTTP error
  status, and a request that raises after five seconds (a timeout).
\<close>

definition json_reply :: "jvalue \<Rightarrow> reply" where
  "json_reply j = \<lparr>latency = 1, outcome = Responds \<lparr>resp_ok = True, resp_json = Some j\<rparr>\<rparr>"

definition http_error_reply :: reply where
  "http_error_reply = \<lparr>latency = 1, outcome = Responds \<lparr>resp_ok = False, resp_json = None\<rparr>\<rparr>"

definition no_reply :: reply where
  "no_reply = \<lparr>latency = 5, outcome = Raises\<rparr>"

text \<open>The envelope \<^verbatim>\<open>{"code": code, "data": data}\<close>.\<close>

definition envelope :: "int \<Rightarrow> jvalue \<Rightarrow> jvalue" where
  "envelope code data = JDict [(''code'', JInt code), (''data'', data)]"

text \<open>
  A world at start-up: nothing sent, nothing cached, remote execution enabled, no
  credential; \<open>nt\<close> is the network.
\<close>

definition start_world :: "(nat \<Rightarrow> reply) \<Rightarrow> world" where
  "start_world nt =
     \<lparr>HOST = ''https://tss.example'', BUCKET = ''xingzheaidraw'',
      conf = \<lparr>xz_ext_enable = Some True, tu_token = None, worker = False\<rparr>,
      net = nt, sent = [], clock = 0, cache = Map.empty, cn_models = [], files = [],
      url_basename = (\<lambda>url. ''out.png''), writable = (\<lambda>f. True),
      scan_models = [(JStr ''None'', JNull), (JStr ''local_canny'', JStr ''canny.pth'')],
      valid_location = (\<lambda>url. True)\<rparr>"

text \<open>A catalog with one module and two models, the first the empty selection.\<close>

definition catalog :: jvalue where
  "catalog = JDict [(''items'', JDict [
     (''3'', JList [JDict [(''real_value'', JStr ''canny''), (''display_value'', JStr ''canny'')]]),
     (''4'', JList [
        JDict [(''display_value'', JStr wu), (''real_value'', JNull)],
        JDict [(''display_value'', JStr ''canny''), (''real_value'', JStr ''control_canny'')]])])]"

text \<open>A catalog whose first model is displayed as \<^verbatim>\<open>None\<close>.\<close>

definition catalog_none_first :: jvalue where
  "catalog_none_first = JDict [(''items'', JDict [
     (''4'', JList [
        JDict [(''display_value'', JStr ''None''), (''real_value'', JStr ''x'')],
        JDict [(''display_value'', JStr ''canny''), (''real_value'', JStr ''control_canny'')]])])]"

text \<open>
  Networks: the service answers the first two requests with the catalog and then with
  HTTP errors; the service is unreachable; a job that stays in status 1; a registration
  endpoint that rejects every upload with envelope code 500; one that accepts the first
  upload and its PUT and then answers with HTTP errors.
\<close>

definition net_catalog_then_errors :: "nat \<Rightarrow> reply" where
  "net_catalog_then_errors n = (if n < 2 then json_reply (envelope 200 catalog) else http_error_reply)"

definition net_unreachable :: "nat \<Rightarrow> reply" where
  "net_unreachable n = no_reply"

definition net_job_running :: "nat \<Rightarrow> reply" where
  "net_job_running n = json_reply (envelope 200 (JDict [(''status'', JInt 1)]))"

definition net_upload_rejected :: "nat \<Rightarrow> reply" where
  "net_upload_rejected n = json_reply (envelope 500 JNull)"

definition net_second_upload_fails :: "nat \<Rightarrow> reply" where
  "net_second_upload_fails n =
     (if n = 0 then json_reply (envelope 200
          (JDict [(''url'', JStr ''https://oss.example/put''), (''oss_key'', JStr ''k1.png'')]))
      else if n = 1 then json_reply JNull
      else http_error_reply)"

text \<open>
  A service that answers every request with a body that is not JSON; and one that takes
  both uploads, accepts the job as task \<^verbatim>\<open>t1\<close>, reports it finished at the first poll
  with the payload \<open>result\<close>, and serves the artifact.
\<close>

definition net_not_json :: "nat \<Rightarrow> reply" where
  "net_not_json n = \<lparr>latency = 1, outcome = Responds \<lparr>resp_ok = True, resp_json = None\<rparr>\<rparr>"

definition net_job_done :: "(string \<times> jvalue) list \<Rightarrow> nat \<Rightarrow> reply" where
  "net_job_done result n =
     (if n = 0 \<or> n = 2 then json_reply (envelope 200
          (JDict [(''url'', JStr ''https://oss.example/put''), (''oss_key'', JStr ''k.png'')]))
      else if n = 4 then json_reply (envelope 200 (JDict [(''task_id'', JStr ''t1'')]))
      else if n = 5 then json_reply (envelope 200 (JDict ((''status'', JInt 10) # result)))
      else json_reply JNull)"

text \<open>The world the job of \<open>net_job_done\<close> is in after \<open>n\<close> requests, at time \<open>t\<close>.\<close>

definition job_world :: "(string \<times> jvalue) list \<Rightarrow> request list \<Rightarrow> real \<Rightarrow> world" where
  "job_world result rqs t = (start_world (net_job_done result))\<lparr>sent := rqs, clock := t\<rparr>"

text \<open>The requests of the two uploads and the descriptor of the example job.\<close>

definition example_uploads :: "request list" where
  "example_uploads = [PostOssFiles False, Put ''https://oss.example/put'',
                      PostOssFiles False, Put ''https://oss.example/put'']"

definition example_job :: jvalue where
  "example_job = job_descriptor ''xingzheaidraw/k.png'' ''xingzheaidraw/k.png''
     (JStr ''canny'') (JInt 512) (JInt 1) (JInt 2) (JInt 512) (JInt 512) (JBool False) (JInt 1)"

text \<open>
  Collaborators of the editor group over arrays that are plain numbers: every module is
  its own base name, \<^verbatim>\<open>reference_only\<close> is the model-free module, and the three
  registered preprocessors return their input; two of them hand a JSON string to the
  callback they are given.
\<close>

definition example_externals :: "nat externals" where
  "example_externals =
     \<lparr>get_module_basename = (\<lambda>m. m),
      preprocessor_sliders_config = Map.empty,
      flag_preprocessor_resolution = ''Preprocessor Resolution'',
      model_free_preprocessors = [''reference_only''],
      preprocessors = [''reference_only'' \<mapsto> (\<lambda>inv. (inv_img inv, True, None)),
                       ''openpose_full'' \<mapsto> (\<lambda>inv. (inv_img inv, True, Some ''{}'')),
                       ''depth'' \<mapsto> (\<lambda>inv. (inv_img inv, True, Some ''{}''))],
      HWC3 = (\<lambda>a. a), blank_mask = (\<lambda>m. True), channel0 = (\<lambda>m. m),
      with_alpha = (\<lambda>c m. c), ignore_noninpaint_mask = False,
      pixel_perfect_resolution = (\<lambda>img h w rm. JInt 512),
      visualize_inpaint_mask = (\<lambda>a. a), clip_vision_visualization = (\<lambda>a. a),
      open_image = (\<lambda>f. Some 0)\<rparr>"

text \<open>
  The components of a unit whose module is model-free while a model is still selected,
  as a unit built from stored settings is.
\<close>

definition example_components :: "nat components" where
  "example_components =
     \<lparr>c_input_image = Some \<lparr>image = 7, mask = 0\<rparr>,
      c_module = ''reference_only'',
      c_model = JStr ''control_canny'',
      c_model_visible = True,
      c_processor_res = JInt 512, c_threshold_a = JInt 64, c_threshold_b = JInt 64,
      c_width = JInt 512, c_height = JInt 512,
      c_pixel_perfect = False, c_resize_mode = JStr ''Crop and Resize'',
      c_generated_image = None, c_preprocessor_preview = False, c_pose_json = []\<rparr>"

text \<open>
  Worlds of the editor group: remote execution switched off, and a worker process in
  which the remote flag is set.
\<close>

definition local_world :: world where
  "local_world = (start_world net_unreachable)\<lparr>
     conf := \<lparr>xz_ext_enable = Some False, tu_token = None, worker = False\<rparr>\<rparr>"

definition worker_world :: world where
  "worker_world = (start_world net_unreachable)\<lparr>
     conf := \<lparr>xz_ext_enable = Some True, tu_token = None, worker = True\<rparr>\<rparr>"

section \<open>Theorems\<close>

text \<open>
  C6. A configured credential whose expiry is less than 60 seconds away
  (\<open>expire - time < 60\<close>) gives the empty token, and so does a configuration with no
  credential. The function is total on every configuration and clock reading and is a
  pure function of the two: it raises nothing and makes no request.
\<close>

theorem get_tushuashua_token_expired_or_absent:
  "(tu_token cfg = Some t \<and> expire t - time < 60 \<longrightarrow> get_tushuashua_token cfg time = '''')
   \<and> (tu_token cfg = None \<longrightarrow> get_tushuashua_token cfg time = '''')"
  by (auto simp: get_tushuashua_token_def)

theorem get_tushuashua_token_expired_or_absent_witness:
  "get_tushuashua_token \<lparr>xz_ext_enable = Some True,
      tu_token = Some \<lparr>token = ''abc'', expire = 1000\<rparr>, worker = False\<rparr> 941 = ''''
   \<and> get_tushuashua_token \<lparr>xz_ext_enable = None, tu_token = None, worker = False\<rparr> 0 = ''''"
  using get_tushuashua_token_expired_or_absent
    [of "\<lparr>xz_ext_enable = Some True,
      tu_token = Some \<lparr>token = ''abc'', expire = 1000\<rparr>, worker = False\<rparr>"
      "\<lparr>token = ''abc'', expire = 1000\<rparr>" 941]
    get_tushuashua_token_expired_or_absent
    [of "\<lparr>xz_ext_enable = None, tu_token = None, worker = False\<rparr>" undefined 0]
  by simp

subsection \<open>Strings and dictionaries\<close>

lemma str_contains_iff: "str_contains sub s \<longleftrightarrow> (\<exists>pre suf. s = pre @ sub @ suf)"
proof (induction s)
  case Nil
  then show ?case by auto
next
  case (Cons c s)
  show ?case
  proof
    assume "str_contains sub (c # s)"
    then consider "startswith (c # s) sub" | "str_contains sub s" by auto
    then show "\<exists>pre suf. c # s = pre @ sub @ suf"
    proof cases
      case 1
      then have "c # s = [] @ sub @ drop (length sub) (c # s)"
        unfolding startswith_def by (metis append_Nil append_take_drop_id)
      then show ?thesis by blast
    next
      case 2
      then obtain pre suf where "s = pre @ sub @ suf" using Cons.IH by blast
      then have "c # s = (c # pre) @ sub @ suf" by simp
      then show ?thesis by blast
    qed
  next
    assume "\<exists>pre suf. c # s = pre @ sub @ suf"
    then obtain pre suf where eq: "c # s = pre @ sub @ suf" by blast
    show "str_contains sub (c # s)"
    proof (cases pre)
      case Nil
      then have "startswith (c # s) sub" using eq by (simp add: startswith_def)
      then show ?thesis by simp
    next
      case (Cons a pre')
      then have "s = pre' @ sub @ suf" using eq by simp
      then have "str_contains sub s" using Cons.IH by blast
      then show ?thesis by simp
    qed
  qed
qed

lemma key_eq_refl: "key_eq k k"
  by (simp add: key_eq_def)

lemma key_norm_JStr: "key_norm k = JStr s \<longleftrightarrow> k = JStr s"
  by (cases k) auto

lemma key_eq_JStr: "key_eq k (JStr s) \<longleftrightarrow> k = JStr s"
  by (simp add: key_eq_def key_norm_JStr)

lemma dict_mem_iff: "dict_mem k d \<longleftrightarrow> key_norm k \<in> set (norm_keys d)"
  by (induction d) (auto simp: dict_mem_def norm_keys_def key_eq_def)

lemma norm_keys_dict_set:
  "norm_keys (dict_set k v d) =
     (if key_norm k \<in> set (norm_keys d) then norm_keys d else norm_keys d @ [key_norm k])"
  by (induction d) (force simp: norm_keys_def key_eq_def)+

lemma dict_set_new: "key_norm k \<notin> set (norm_keys d) \<Longrightarrow> dict_set k v d = d @ [(k, v)]"
  by (induction d) (auto simp: norm_keys_def key_eq_def)

lemma dict_lookup_dict_set:
  "dict_lookup (dict_set k v d) k' = (if key_eq k k' then Some v else dict_lookup d k')"
  by (induction d) (auto simp: key_eq_def)

lemma distinct_dict_set: "distinct (norm_keys d) \<Longrightarrow> distinct (norm_keys (dict_set k v d))"
  by (simp add: norm_keys_dict_set)

lemma norm_keys_dict_del:
  "distinct (norm_keys d) \<Longrightarrow> set (norm_keys (dict_del k d)) = set (norm_keys d) - {key_norm k}"
proof (induction d)
  case Nil
  then show ?case by (simp add: norm_keys_def)
next
  case (Cons kv d)
  obtain k' v' where kv: "kv = (k', v')" by (cases kv)
  from Cons.prems have notin: "key_norm k' \<notin> set (norm_keys d)" and dist: "distinct (norm_keys d)"
    by (simp_all add: norm_keys_def kv)
  show ?case
  proof (cases "key_eq k' k")
    case True
    then have "key_norm k \<notin> set (norm_keys d)" using notin by (simp add: key_eq_def)
    with True show ?thesis by (auto simp: kv norm_keys_def key_eq_def)
  next
    case False
    then have "norm_keys (dict_del k (kv # d)) = key_norm k' # norm_keys (dict_del k d)"
      by (simp add: kv norm_keys_def)
    then show ?thesis using Cons.IH [OF dist] False by (auto simp: kv norm_keys_def key_eq_def)
  qed
qed

lemma distinct_dict_del: "distinct (norm_keys d) \<Longrightarrow> distinct (norm_keys (dict_del k d))"
proof (induction d)
  case Nil
  then show ?case by simp
next
  case (Cons kv d)
  then have "distinct (norm_keys d)" by (simp add: norm_keys_def)
  with Cons show ?case
    using norm_keys_dict_del [of d k] by (cases kv) (auto simp: norm_keys_def key_eq_def)
qed

lemma dict_of_items_distinct:
  "dict_of_items its d0 = Inr d \<Longrightarrow> distinct (norm_keys d0) \<Longrightarrow> distinct (norm_keys d)"
proof (induction its arbitrary: d0)
  case Nil
  then show ?case by simp
next
  case (Cons it its)
  from Cons.prems(1) obtain k v where
    "subscript it ''display_value'' = Inr k" "subscript it ''real_value'' = Inr v"
    "hashable k" "dict_of_items its (dict_set k v d0) = Inr d"
    by (auto simp: and_then_def split: sum.splits if_splits)
  then show ?case using Cons.IH Cons.prems(2) distinct_dict_set by blast
qed

lemma dict_of_items_keys:
  "dict_of_items its d0 = Inr d \<Longrightarrow> key_norm k \<in> set (norm_keys d) \<Longrightarrow>
     key_norm k \<in> set (norm_keys d0) \<or>
     (\<exists>it\<in>set its. \<exists>k'. subscript it ''display_value'' = Inr k' \<and> key_norm k' = key_norm k)"
proof (induction its arbitrary: d0)
  case Nil
  then show ?case by simp
next
  case (Cons it its)
  from Cons.prems(1) obtain k1 v1 where it:
    "subscript it ''display_value'' = Inr k1" "subscript it ''real_value'' = Inr v1"
    "dict_of_items its (dict_set k1 v1 d0) = Inr d"
    by (auto simp: and_then_def split: sum.splits if_splits)
  from Cons.IH [OF it(3) Cons.prems(2)] show ?case
    using it(1) by (auto simp: norm_keys_dict_set split: if_splits)
qed

lemma models_of_result:
  assumes "models_of data = Inr d"
  shows "dict_lookup d (JStr ''None'') = Some JNull"
    and "\<not> dict_mem (JStr wu) d"
    and "distinct (norm_keys d)"
    and "feed_items ''4'' data = Inr its \<Longrightarrow>
         (\<forall>it\<in>set its. subscript it ''display_value'' \<noteq> Inr (JStr ''None'')) \<Longrightarrow>
         last d = (JStr ''None'', JNull)"
proof -
  from assms obtain its0 d0 where its0: "feed_items ''4'' data = Inr its0"
    and d0: "dict_of_items its0 [] = Inr d0"
    and d: "d = dict_set (JStr ''None'') JNull
                  (if dict_mem (JStr wu) d0 then dict_del (JStr wu) d0 else d0)"
    by (auto simp: models_of_def and_then_def Let_def split: sum.splits)
  let ?d1 = "if dict_mem (JStr wu) d0 then dict_del (JStr wu) d0 else d0"
  have dist0: "distinct (norm_keys d0)"
    using dict_of_items_distinct [OF d0] by (simp add: norm_keys_def)
  then have dist1: "distinct (norm_keys ?d1)" by (simp add: distinct_dict_del)
  have nowu1: "\<not> dict_mem (JStr wu) ?d1"
    using dist0 by (auto simp: dict_mem_iff norm_keys_dict_del)
  show "dict_lookup d (JStr ''None'') = Some JNull"
    by (simp add: d dict_lookup_dict_set key_eq_refl)
  show "\<not> dict_mem (JStr wu) d"
    using nowu1 unfolding d dict_mem_iff norm_keys_dict_set by (auto simp: wu_def)
  show "distinct (norm_keys d)"
    unfolding d using dist1 by (rule distinct_dict_set)
  show "last d = (JStr ''None'', JNull)"
    if "feed_items ''4'' data = Inr its"
      and "\<forall>it\<in>set its. subscript it ''display_value'' \<noteq> Inr (JStr ''None'')"
  proof -
    from that(1) its0 have "its0 = its" by simp
    have "key_norm (JStr ''None'') \<notin> set (norm_keys d0)"
    proof
      assume "key_norm (JStr ''None'') \<in> set (norm_keys d0)"
      from dict_of_items_keys [OF d0 this] obtain it k' where
        "it \<in> set its0" "subscript it ''display_value'' = Inr k'"
        "key_norm k' = key_norm (JStr ''None'')"
        by (auto simp: norm_keys_def)
      then show False using that(2) \<open>its0 = its\<close> by (auto simp: key_norm_JStr)
    qed
    then have "key_norm (JStr ''None'') \<notin> set (norm_keys ?d1)"
      using dist0 by (auto simp: norm_keys_dict_del)
    then have "d = ?d1 @ [(JStr ''None'', JNull)]"
      unfolding d by (rule dict_set_new)
    then show ?thesis by (metis last_snoc)
  qed
qed

lemma dict_update_fresh:
  "distinct (norm_keys (d @ m)) \<Longrightarrow> dict_update d m = d @ m"
proof (induction m arbitrary: d)
  case Nil
  then show ?case by simp
next
  case (Cons kv m)
  obtain k v where kv: "kv = (k, v)" by (cases kv)
  from Cons.prems have "key_norm k \<notin> set (norm_keys d)"
    by (auto simp: norm_keys_def kv)
  then have "dict_set k v d = d @ [(k, v)]" by (rule dict_set_new)
  moreover have "distinct (norm_keys ((d @ [(k, v)]) @ m))"
    using Cons.prems by (simp add: kv)
  ultimately show ?case using Cons.IH [of "d @ [(k, v)]"] by (simp add: kv)
qed

subsection \<open>The poll loop\<close>

lemma poll_result_continue:
  assumes "\<not> poll_raises r" and "never_terminal r" and "outcome r = Responds resp"
  shows "poll_result resp = Inr None"
  using assms
  by (auto simp: poll_raises_def never_terminal_def polled_status_def poll_result_def
      terminal_def and_then_def json_of_def
      split: option.splits sum.splits if_splits)

lemma poll_world:
  "snd (poll task_id w) =
     w\<lparr>clock := clock w + 2 + max 0 (latency (next_reply w)),
       sent := sent w @ [GetImgTask task_id]\<rparr>"
  by (simp add: poll_def sleep_def http_def io_bind_def io_lift_def Let_def next_reply_def
      split: outcome.splits sum.splits prod.splits)

lemma poll_fst:
  "fst (poll task_id w) =
     (case outcome (next_reply w) of
        Raises \<Rightarrow> Inl RequestException
      | Responds resp \<Rightarrow> poll_result resp)"
  by (simp add: poll_def sleep_def http_def io_bind_def io_lift_def Let_def next_reply_def
      split: outcome.splits sum.splits prod.splits)

lemma waite_loop_timeout:
  "(\<forall>k. test_time (net w) (length (sent w)) (clock w - start) k < timeout \<longrightarrow>
        \<not> poll_raises (net w (length (sent w) + k)) \<and> never_terminal (net w (length (sent w) + k)))
   \<Longrightarrow> fst (waite_loop task_id timeout start w) = Inr JNull"
proof (induction task_id timeout start w rule: waite_loop.induct)
  case (1 task_id timeout start w)
  show ?case
  proof (cases "clock w - start < timeout")
    case False
    then show ?thesis by simp
  next
    case True
    let ?r = "next_reply w"
    let ?w' = "snd (poll task_id w)"
    from "1.prems" True have ok: "\<not> poll_raises ?r" "never_terminal ?r"
      using spec [of _ 0] by (auto simp: next_reply_def dest: spec [of _ 0])
    then obtain resp where resp: "outcome ?r = Responds resp"
      by (cases "outcome ?r") (auto simp: poll_raises_def)
    have cont: "fst (poll task_id w) = Inr None"
      using poll_result_continue [OF ok resp] resp by (simp add: poll_fst)
    then have pw: "poll task_id w = (Inr None, ?w')"
      by (metis prod.collapse)
    have shift: "\<forall>k. test_time (net ?w') (length (sent ?w')) (clock ?w' - start) k < timeout \<longrightarrow>
        \<not> poll_raises (net ?w' (length (sent ?w') + k)) \<and> never_terminal (net ?w' (length (sent ?w') + k))"
    proof (intro allI impI)
      fix k
      assume "test_time (net ?w') (length (sent ?w')) (clock ?w' - start) k < timeout"
      then have "test_time (net w) (length (sent w)) (clock w - start) (Suc k) < timeout"
        by (simp add: poll_world next_reply_def algebra_simps)
      with "1.prems" have "\<not> poll_raises (net w (length (sent w) + Suc k)) \<and>
          never_terminal (net w (length (sent w) + Suc k))"
        by blast
      then show "\<not> poll_raises (net ?w' (length (sent ?w') + k)) \<and>
          never_terminal (net ?w' (length (sent ?w') + k))"
        by (simp add: poll_world)
    qed
    have "fst (waite_loop task_id timeout start ?w') = Inr JNull"
      using "1.IH" [OF True pw [symmetric] refl refl shift] .
    moreover have "waite_loop task_id timeout start w = waite_loop task_id timeout start ?w'"
      using True by (subst waite_loop.simps, subst pw) simp
    ultimately show ?thesis by simp
  qed
qed

subsection \<open>The catalog\<close>

lemma request_tss_snd:
  "snd (request_tss api w) =
     w\<lparr>sent := sent w @ [Get api], clock := clock w + max 0 (latency (next_reply w))\<rparr>"
  by (simp add: request_tss_def http_def io_bind_def io_lift_def io_return_def Let_def
      next_reply_def split: outcome.splits sum.splits prod.splits)






lemma fetch_or_cached_run:
  "fetch_or_cached api key w =
     (case fst (request_tss api w) of
        Inl e \<Rightarrow> (Inl e, snd (request_tss api w))
      | Inr data0 \<Rightarrow>
          if \<not> truthy data0 then
            (if \<not> truthy (cache_get w key) then Inl RequestTssFailed else Inr (cache_get w key),
             snd (request_tss api w))
          else (Inr data0, (snd (request_tss api w))\<lparr>cache := (cache w)(key \<mapsto> data0)\<rparr>))"
  using request_tss_snd [of api w]
  by (cases "request_tss api w")
    (auto simp: fetch_or_cached_def io_bind_def io_raise_def io_return_def cache_get_def
      split: sum.split)


lemma fetch_or_cached_stores:
  assumes "fst (fetch_or_cached api key w) = Inr data"
  shows "cache (snd (fetch_or_cached api key w)) key = Some data \<and> truthy data"
  using assms
  by (auto simp: fetch_or_cached_run request_tss_snd cache_get_def
      split: sum.splits if_splits option.splits)


lemma request_models_run:
  "request_models w =
     (case fetch_or_cached (HOST w @ ''/v1/samplers/category?categorys=4'') ''models'' w of
        (Inl e, w') \<Rightarrow> (Inl e, w')
      | (Inr data, w') \<Rightarrow> (models_of data, w'))"
  by (simp add: request_models_def io_bind_def io_read_def io_lift_def split: prod.split sum.split)


lemma request_models_success:
  assumes "fst (request_models w) = Inr v"
  shows "\<exists>data. cache (snd (request_models w)) ''models'' = Some data \<and> truthy data
           \<and> models_of data = Inr v"
proof -
  let ?f = "fetch_or_cached (HOST w @ ''/v1/samplers/category?categorys=4'') ''models'' w"
  obtain r w' where f: "?f = (r, w')" by (cases ?f)
  with assms obtain data where r: "r = Inr data" and m: "models_of data = Inr v"
    by (cases r) (auto simp: request_models_run)
  from f r have "fst ?f = Inr data" by simp
  from fetch_or_cached_stores [OF this] f r m show ?thesis
    by (auto simp: request_models_run)
qed





subsection \<open>Uploads\<close>

lemma http_run:
  "http rq w =
     (case outcome (next_reply w) of Raises \<Rightarrow> Inl RequestException | Responds resp \<Rightarrow> Inr resp,
      w\<lparr>sent := sent w @ [rq], clock := clock w + max 0 (latency (next_reply w))\<rparr>)"
  by (simp add: http_def Let_def next_reply_def split: outcome.split)

lemma next_reply_after:
  "next_reply (w\<lparr>sent := sent w @ [rq], clock := c\<rparr>) = second_reply w"
  by (simp add: next_reply_def second_reply_def)

lemma upload_image_data_sent:
  "\<exists>rqs. sent (snd (upload_image_data persistent w)) = sent w @ rqs \<and>
          (\<forall>rq\<in>set rqs. \<not> is_PostCnet rq)"
proof -
  have put: "\<exists>rqs. sent (snd (http_url Put url w1)) = sent w1 @ rqs \<and>
          (\<forall>rq\<in>set rqs. \<not> is_PostCnet rq)" for url w1
    by (cases url) (simp_all add: http_run io_raise_def)
  obtain r w1 where post: "http (PostOssFiles persistent) w = (r, w1)"
    by (cases "http (PostOssFiles persistent) w")
  then have w1: "sent w1 = sent w @ [PostOssFiles persistent]"
    by (auto simp: http_run)
  show ?thesis
  proof (cases "\<exists>resp json_d code data url. r = Inr resp \<and> resp_ok resp \<and>
      json_of resp = Inr json_d \<and> subscript json_d ''code'' = Inr code \<and> eq_int code 200 \<and>
      subscript json_d ''data'' = Inr data \<and> subscript data ''url'' = Inr url")
    case True
    then obtain resp json_d code data url where h: "r = Inr resp" "resp_ok resp"
      "json_of resp = Inr json_d" "subscript json_d ''code'' = Inr code" "eq_int code 200"
      "subscript json_d ''data'' = Inr data" "subscript data ''url'' = Inr url" by blast
    obtain r2 w2 where p2: "http_url Put url w1 = (r2, w2)" by (cases "http_url Put url w1")
    from put [of url w1] p2 obtain rqs where rqs: "sent w2 = sent w1 @ rqs"
      "\<forall>rq\<in>set rqs. \<not> is_PostCnet rq" by auto
    have "snd (upload_image_data persistent w) = w2"
      using post h p2
      by (auto simp: upload_image_data_def io_bind_def io_lift_def io_return_def
          split: sum.splits)
    then show ?thesis using rqs w1 by simp
  next
    case False
    then have "snd (upload_image_data persistent w) = w1"
      using post
      by (auto simp: upload_image_data_def io_bind_def io_lift_def io_return_def
          split: sum.splits)
    then show ?thesis using w1 by simp
  qed
qed

lemma upload_image_data_fails:
  assumes "upload_fails w" and "fst (upload_image_data persistent w) = Inr key"
  shows "key = JNull"
proof -
  obtain r w1 where post: "http (PostOssFiles persistent) w = (r, w1)"
    by (cases "http (PostOssFiles persistent) w")
  then have w1: "w1 = w\<lparr>sent := sent w @ [PostOssFiles persistent],
      clock := clock w + max 0 (latency (next_reply w))\<rparr>"
    and r: "r = (case outcome (next_reply w) of Raises \<Rightarrow> Inl RequestException
                 | Responds resp \<Rightarrow> Inr resp)"
    by (auto simp: http_run)
  show ?thesis
  proof (cases "registration_ok (next_reply w)")
    case False
    with assms(2) post r show ?thesis
      by (auto simp: upload_image_data_def io_bind_def io_lift_def io_return_def
          registration_ok_def json_of_def
          split: sum.splits outcome.splits option.splits if_splits)
  next
    case True
    with assms(1) have nput: "\<not> put_ok (next_reply w1)"
      by (simp add: upload_fails_def w1 next_reply_after)
    have puts: "http_url Put url w1 = (Inr resp2, w2) \<Longrightarrow> \<not> resp_ok resp2" for url resp2 w2
      using nput
    by (cases url) (auto simp: http_run io_raise_def put_ok_def split: outcome.splits if_splits)
    from assms(2) post show ?thesis
      by (auto simp: upload_image_data_def io_bind_def io_lift_def io_return_def
          split: sum.splits prod.splits if_splits dest: puts)
  qed
qed


subsection \<open>The poller\<close>

text \<open>
  C1, as amended. If every poll made before the timeout runs out returns without
  raising and shows no terminal status (10 or -1), \<^verbatim>\<open>waite_task\<close> returns
  \<^verbatim>\<open>None\<close>: it terminates, and it does so with no result rather than with an
  exception. The timeout is measured from the entry to the loop. And a poll whose
  response carries a status that is not terminal makes the loop go round again.
\<close>

theorem waite_task_timeout:
  "((\<forall>k. test_time (net w) (length (sent w)) 0 k < timeout \<longrightarrow>
          \<not> poll_raises (net w (length (sent w) + k)) \<and>
          never_terminal (net w (length (sent w) + k)))
      \<longrightarrow> fst (waite_task task_id timeout w) = Inr JNull)
   \<and> (clock w - start < timeout \<and> polled_status (next_reply w) = Some status \<and>
        \<not> terminal status
      \<longrightarrow> waite_loop task_id timeout start w =
          waite_loop task_id timeout start (snd (poll task_id w)))"
proof (intro conjI impI)
  assume "\<forall>k. test_time (net w) (length (sent w)) 0 k < timeout \<longrightarrow>
          \<not> poll_raises (net w (length (sent w) + k)) \<and>
          never_terminal (net w (length (sent w) + k))"
  then show "fst (waite_task task_id timeout w) = Inr JNull"
    using waite_loop_timeout [of w "clock w" timeout task_id] by (simp add: waite_task_def)
next
  assume a: "clock w - start < timeout \<and> polled_status (next_reply w) = Some status \<and>
        \<not> terminal status"
  then obtain resp where resp: "outcome (next_reply w) = Responds resp"
    by (cases "outcome (next_reply w)") (auto simp: polled_status_def)
  have "poll_result resp = Inr None"
    using a resp
    by (auto simp: polled_status_def poll_result_def terminal_def and_then_def json_of_def
        split: option.splits sum.splits if_splits)
  then have "fst (poll task_id w) = Inr None"
    using resp by (simp add: poll_fst)
  then have pw: "poll task_id w = (Inr None, snd (poll task_id w))"
    by (metis prod.collapse)
  show "waite_loop task_id timeout start w =
          waite_loop task_id timeout start (snd (poll task_id w))"
    using a by (subst waite_loop.simps, subst pw) simp
qed

theorem waite_task_timeout_witness:
  "fst (waite_task (JStr ''job'') 300 (start_world net_job_running)) = Inr JNull
   \<and> waite_loop (JStr ''job'') 300 0 (start_world net_job_running) =
       waite_loop (JStr ''job'') 300 0 (snd (poll (JStr ''job'') (start_world net_job_running)))"
proof -
  let ?w = "start_world net_job_running"
  have h1: "\<forall>k. test_time (net ?w) (length (sent ?w)) 0 k < 300 \<longrightarrow>
          \<not> poll_raises (net ?w (length (sent ?w) + k)) \<and>
          never_terminal (net ?w (length (sent ?w) + k))"
    by (simp add: start_world_def net_job_running_def json_reply_def envelope_def
        poll_raises_def never_terminal_def polled_status_def poll_result_def terminal_def
        and_then_def json_of_def)
  have h2: "clock ?w - 0 < 300 \<and> polled_status (next_reply ?w) = Some (JInt 1) \<and>
        \<not> terminal (JInt 1)"
    by (simp add: start_world_def net_job_running_def json_reply_def envelope_def
        polled_status_def terminal_def next_reply_def)
  from waite_task_timeout [of ?w 300 "JStr ''job''" 0 "JInt 1"] h1 h2
  show ?thesis by blast
qed

text \<open>
  The claim as stated fails where a poll raises: with the service unreachable no poll
  ever shows a terminal status, and \<^verbatim>\<open>waite_task\<close> ends with the exception of
  \<^verbatim>\<open>requests.get\<close>, not with \<^verbatim>\<open>None\<close>.
\<close>

theorem waite_task_raises_counterexample:
  "(\<forall>k. never_terminal (net (start_world net_unreachable) k))
   \<and> fst (waite_task (JStr ''job'') 300 (start_world net_unreachable)) = Inl RequestException"
  by (simp add: start_world_def net_unreachable_def no_reply_def never_terminal_def
      polled_status_def waite_task_def poll_def sleep_def http_def io_bind_def io_lift_def)

subsection \<open>The catalog cache\<close>



text \<open>Two fetches that succeed, in the world \<open>start_world net_catalog_then_errors\<close>.\<close>

lemma request_models_example:
  "request_models (start_world net_catalog_then_errors) =
     (Inr [(JStr ''canny'', JStr ''control_canny''), (JStr ''None'', JNull)],
      (start_world net_catalog_then_errors)\<lparr>
        sent := [Get ''https://tss.example/v1/samplers/category?categorys=4''],
        clock := 1, cache := [''models'' \<mapsto> catalog]\<rparr>)"
  by (simp add: request_models_def fetch_or_cached_def request_tss_def http_def io_bind_def
      io_read_def io_lift_def io_return_def io_raise_def json_of_def start_world_def
      net_catalog_then_errors_def json_reply_def envelope_def catalog_def models_of_def
      feed_items_def and_then_def dict_mem_def key_eq_def wu_def)




subsection \<open>The selected artifact\<close>

lemma download_sent:
  assumes "sendable_url w url"
  shows "sent (snd (download (JStr url) w)) = sent w @ [Get url]"
  using assms
  by (auto simp: http_run io_bind_def save_artifact_def io_return_def Let_def
      split: outcome.splits)

lemma download_refused:
  assumes "\<forall>url. u = JStr url \<longrightarrow> \<not> sendable_url w url"
  shows "download u w = (Inl InvalidURL, w)"
  using assms by (cases u) (simp_all add: io_bind_def io_raise_def)

text \<open>
  C3. Let \<^verbatim>\<open>run_annotator\<close> have uploaded the image and the mask, submitted the job
  and received the payload \<open>d\<close> from \<^verbatim>\<open>waite_task\<close>. If \<^verbatim>\<open>hig_images\<close> of \<open>d\<close> is a
  non-empty list, whatever \<^verbatim>\<open>images\<close> holds, or \<^verbatim>\<open>hig_images\<close> is absent or empty and
  \<^verbatim>\<open>images\<close> is a non-empty list, then \<^verbatim>\<open>run_annotator\<close> goes on with the download of
  the first element \<open>u\<close> of that list and its result is the result of that download:
  when \<open>u\<close> is a URL \<^verbatim>\<open>requests\<close> sends to, the one request sent after the poll is the
  GET of \<open>u\<close>; otherwise the call raises and nothing is sent.
\<close>

theorem run_annotator_downloads_first_image:
  assumes "upload_image_data False w = (Inr (JStr image_key), w1)" and "image_key \<noteq> []"
    and "upload_image_data False w1 = (Inr (JStr mask_key), w2)" and "mask_key \<noteq> []"
    and "http (PostCnet (job_descriptor (path_join (BUCKET w2) image_key)
            (path_join (BUCKET w2) mask_key) modul pres pthr_a pthr_b t2i_w t2i_h pp rm)) w2
          = (Inr resp, w3)"
    and "resp_ok resp" and "resp_json resp = Some json_d"
    and "subscript json_d ''code'' = Inr code" and "eq_int code 200"
    and "subscript json_d ''data'' = Inr dat" and "subscript dat ''task_id'' = Inr task_id"
    and "waite_task task_id 300 w3 = (Inr (JDict d), w4)"
  shows "(map_of d ''hig_images'' = Some (JList (u # us)) \<or>
          (case map_of d ''hig_images'' of None \<Rightarrow> True | Some h \<Rightarrow> \<not> truthy h) \<and>
          map_of d ''images'' = Some (JList (u # us)))
     \<longrightarrow> run_annotator modul pres pthr_a pthr_b t2i_w t2i_h pp rm w = download u w4 \<and>
         (\<forall>url. u = JStr url \<and> sendable_url w4 url \<longrightarrow>
            sent (snd (run_annotator modul pres pthr_a pthr_b t2i_w t2i_h pp rm w))
              = sent w4 @ [Get url]) \<and>
         ((\<forall>url. u = JStr url \<longrightarrow> \<not> sendable_url w4 url) \<longrightarrow>
            run_annotator modul pres pthr_a pthr_b t2i_w t2i_h pp rm w = (Inl InvalidURL, w4))"
proof
  let ?run = "run_annotator modul pres pthr_a pthr_b t2i_w t2i_h pp rm"
  assume first: "map_of d ''hig_images'' = Some (JList (u # us)) \<or>
          (case map_of d ''hig_images'' of None \<Rightarrow> True | Some h \<Rightarrow> \<not> truthy h) \<and>
          map_of d ''images'' = Some (JList (u # us))"
  then have selected: "image_url_of (JDict d) = Inr (Some u)"
    by (auto simp: image_url_of_def select_images_def and_then_def split: option.splits)
  from first have "d \<noteq> []" by auto
  with assms selected have run: "?run w = download u w4"
    by (simp add: run_annotator_def io_bind_def io_read_def io_lift_def json_of_def)
  have "sent (snd (?run w)) = sent w4 @ [Get url]" if "u = JStr url \<and> sendable_url w4 url" for url
    using that download_sent [of w4 url] by (simp add: run)
  moreover have "?run w = (Inl InvalidURL, w4)" if "\<forall>url. u = JStr url \<longrightarrow> \<not> sendable_url w4 url"
    using download_refused [OF that] by (simp add: run)
  ultimately show "?run w = download u w4 \<and>
      (\<forall>url. u = JStr url \<and> sendable_url w4 url \<longrightarrow> sent (snd (?run w)) = sent w4 @ [Get url]) \<and>
      ((\<forall>url. u = JStr url \<longrightarrow> \<not> sendable_url w4 url) \<longrightarrow> ?run w = (Inl InvalidURL, w4))"
    using run by blast
qed

text \<open>The job of \<open>net_job_done\<close>, step by step.\<close>

lemma job_uploads:
  "upload_image_data False (job_world result [] 0) =
     (Inr (JStr ''k.png''),
      job_world result [PostOssFiles False, Put ''https://oss.example/put''] 2)"
  "upload_image_data False (job_world result [PostOssFiles False, Put ''https://oss.example/put''] 2) =
     (Inr (JStr ''k.png''), job_world result example_uploads 4)"
  by (simp_all add: upload_image_data_def http_def io_bind_def io_lift_def io_return_def
      json_of_def job_world_def start_world_def net_job_done_def json_reply_def envelope_def
      example_uploads_def sendable_url_def space_len_def is_space_def lower_def url_host_def startswith_def)

lemma job_submitted:
  "http (PostCnet example_job) (job_world result example_uploads 4) =
     (Inr \<lparr>resp_ok = True, resp_json = Some (envelope 200 (JDict [(''task_id'', JStr ''t1'')]))\<rparr>,
      job_world result (example_uploads @ [PostCnet example_job]) 5)"
  by (simp add: http_def job_world_def start_world_def net_job_done_def json_reply_def
      example_uploads_def)

lemma job_polled:
  "waite_task (JStr ''t1'') 300 (job_world result (example_uploads @ [PostCnet example_job]) 5) =
     (Inr (JDict ((''status'', JInt 10) # result)),
      job_world result (example_uploads @ [PostCnet example_job, GetImgTask (JStr ''t1'')]) 8)"
  unfolding waite_task_def Let_def
  by (subst waite_loop.simps)
    (simp add: poll_def sleep_def http_def io_bind_def io_lift_def poll_result_def json_of_def
      and_then_def job_world_def start_world_def net_job_done_def json_reply_def envelope_def
      example_uploads_def)

theorem run_annotator_downloads_first_image_witness:
  "sent (snd (run_annotator (JStr ''canny'') (JInt 512) (JInt 1) (JInt 2) (JInt 512) (JInt 512)
       (JBool False) (JInt 1)
       (job_world [(''hig_images'', JList [JStr ''https://x/hi.png'', JStr ''https://x/hi2.png'']),
                   (''images'', JList [JStr ''https://x/lo.png''])] [] 0)))
     = example_uploads @ [PostCnet example_job, GetImgTask (JStr ''t1''), Get ''https://x/hi.png'']
   \<and> sent (snd (run_annotator (JStr ''canny'') (JInt 512) (JInt 1) (JInt 2) (JInt 512) (JInt 512)
       (JBool False) (JInt 1)
       (job_world [(''hig_images'', JList []),
                   (''images'', JList [JStr ''https://x/lo.png''])] [] 0)))
     = example_uploads @ [PostCnet example_job, GetImgTask (JStr ''t1''), Get ''https://x/lo.png'']
   \<and> run_annotator (JStr ''canny'') (JInt 512) (JInt 1) (JInt 2) (JInt 512) (JInt 512)
       (JBool False) (JInt 1) (job_world [(''images'', JList [JStr ''x/lo.png''])] [] 0)
     = (Inl InvalidURL,
        job_world [(''images'', JList [JStr ''x/lo.png''])]
          (example_uploads @ [PostCnet example_job, GetImgTask (JStr ''t1'')]) 8)"
proof -
  let ?both = "[(''hig_images'', JList [JStr ''https://x/hi.png'', JStr ''https://x/hi2.png'']),
                (''images'', JList [JStr ''https://x/lo.png''])]"
  let ?low = "[(''hig_images'', JList []), (''images'', JList [JStr ''https://x/lo.png''])]"
  let ?bad = "[(''images'', JList [JStr ''x/lo.png''])]"
  let ?rqs = "example_uploads @ [PostCnet example_job, GetImgTask (JStr ''t1'')]"
  let ?resp = "\<lparr>resp_ok = True,
      resp_json = Some (envelope 200 (JDict [(''task_id'', JStr ''t1'')]))\<rparr>"
  have job: "job_descriptor (path_join (BUCKET (job_world result example_uploads 4)) ''k.png'')
      (path_join (BUCKET (job_world result example_uploads 4)) ''k.png'')
      (JStr ''canny'') (JInt 512) (JInt 1) (JInt 2) (JInt 512) (JInt 512) (JBool False) (JInt 1)
      = example_job" for result
    by (simp add: example_job_def job_world_def start_world_def path_join_def startswith_def)
  have submitted: "http (PostCnet (job_descriptor
      (path_join (BUCKET (job_world result example_uploads 4)) ''k.png'')
      (path_join (BUCKET (job_world result example_uploads 4)) ''k.png'')
      (JStr ''canny'') (JInt 512) (JInt 1) (JInt 2) (JInt 512) (JInt 512) (JBool False) (JInt 1)))
      (job_world result example_uploads 4)
      = (Inr ?resp, job_world result (example_uploads @ [PostCnet example_job]) 5)" for result
    unfolding job by (rule job_submitted)
  have sendable: "sendable_url (job_world result ?rqs 8) ''https://x/hi.png''"
    "sendable_url (job_world result ?rqs 8) ''https://x/lo.png''"
    "\<not> sendable_url (job_world result ?rqs 8) ''x/lo.png''" for result
    by (simp_all add: sendable_url_def space_len_def is_space_def lower_def url_host_def startswith_def
        job_world_def start_world_def)
  have k: "''k.png'' \<noteq> []" by simp
  have r: "resp_ok ?resp"
    "resp_json ?resp = Some (envelope 200 (JDict [(''task_id'', JStr ''t1'')]))"
    "subscript (envelope 200 (JDict [(''task_id'', JStr ''t1'')])) ''code'' = Inr (JInt 200)"
    "eq_int (JInt 200) 200"
    "subscript (envelope 200 (JDict [(''task_id'', JStr ''t1'')])) ''data''
       = Inr (JDict [(''task_id'', JStr ''t1'')])"
    "subscript (JDict [(''task_id'', JStr ''t1'')]) ''task_id'' = Inr (JStr ''t1'')"
    by (simp_all add: envelope_def)
  note run = run_annotator_downloads_first_image
    [OF job_uploads(1) k job_uploads(2) k submitted r job_polled]
  have d1: "map_of ((''status'', JInt 10) # ?both) ''hig_images''
        = Some (JList (JStr ''https://x/hi.png'' # [JStr ''https://x/hi2.png'']))"
    by simp
  have d2: "(case map_of ((''status'', JInt 10) # ?low) ''hig_images'' of None \<Rightarrow> True
             | Some h \<Rightarrow> \<not> truthy h) \<and>
      map_of ((''status'', JInt 10) # ?low) ''images'' = Some (JList (JStr ''https://x/lo.png'' # []))"
    by simp
  have d3: "(case map_of ((''status'', JInt 10) # ?bad) ''hig_images'' of None \<Rightarrow> True
             | Some h \<Rightarrow> \<not> truthy h) \<and>
      map_of ((''status'', JInt 10) # ?bad) ''images'' = Some (JList (JStr ''x/lo.png'' # []))"
    by simp
  from run d1 sendable(1) [of ?both]
  have a: "sent (snd (run_annotator (JStr ''canny'') (JInt 512) (JInt 1) (JInt 2) (JInt 512)
      (JInt 512) (JBool False) (JInt 1) (job_world ?both [] 0)))
      = sent (job_world ?both ?rqs 8) @ [Get ''https://x/hi.png'']"
    by blast
  from run d2 sendable(2) [of ?low]
  have b: "sent (snd (run_annotator (JStr ''canny'') (JInt 512) (JInt 1) (JInt 2) (JInt 512)
      (JInt 512) (JBool False) (JInt 1) (job_world ?low [] 0)))
      = sent (job_world ?low ?rqs 8) @ [Get ''https://x/lo.png'']"
    by blast
  have "\<forall>url. JStr ''x/lo.png'' = JStr url \<longrightarrow> \<not> sendable_url (job_world ?bad ?rqs 8) url"
    using sendable(3) [of ?bad] by simp
  with run d3
  have c: "run_annotator (JStr ''canny'') (JInt 512) (JInt 1) (JInt 2) (JInt 512)
      (JInt 512) (JBool False) (JInt 1) (job_world ?bad [] 0)
      = (Inl InvalidURL, job_world ?bad ?rqs 8)"
    by blast
  from a b c show ?thesis by (simp add: job_world_def)
qed

subsection \<open>The model mapping\<close>

text \<open>
  C5, as amended. The mapping a successful \<^verbatim>\<open>request_models\<close> returns is built from
  the catalog data now in the cache; it maps the key \<^verbatim>\<open>"None"\<close> to \<^verbatim>\<open>None\<close> and has
  no key U+65E0, whatever the feed contained. The entry \<^verbatim>\<open>"None"\<close> is the last one
  when no item of the feed has the display value \<^verbatim>\<open>"None"\<close>.
\<close>

theorem request_models_None_entry:
  "(fst (request_models w) = Inr d
      \<longrightarrow> dict_lookup d (JStr ''None'') = Some JNull \<and> \<not> dict_mem (JStr wu) d \<and>
          (\<exists>data. cache (snd (request_models w)) ''models'' = Some data \<and> models_of data = Inr d))
   \<and> (models_of data = Inr d \<and> feed_items ''4'' data = Inr its \<and>
       (\<forall>it\<in>set its. subscript it ''display_value'' \<noteq> Inr (JStr ''None''))
      \<longrightarrow> last d = (JStr ''None'', JNull))"
proof (rule conjI; rule impI)
  assume a: "fst (request_models w) = Inr d"
  from request_models_success [OF a] obtain data0 where
    c: "cache (snd (request_models w)) ''models'' = Some data0" and m: "models_of data0 = Inr d"
    by blast
  from models_of_result(1,2) [OF m] c m
  show "dict_lookup d (JStr ''None'') = Some JNull \<and> \<not> dict_mem (JStr wu) d \<and>
          (\<exists>data. cache (snd (request_models w)) ''models'' = Some data \<and> models_of data = Inr d)"
    by blast
next
  assume "models_of data = Inr d \<and> feed_items ''4'' data = Inr its \<and>
       (\<forall>it\<in>set its. subscript it ''display_value'' \<noteq> Inr (JStr ''None''))"
  then show "last d = (JStr ''None'', JNull)"
    using models_of_result(4) [of data d its] by blast
qed

theorem request_models_None_entry_witness:
  "dict_lookup [(JStr ''canny'', JStr ''control_canny''), (JStr ''None'', JNull)] (JStr ''None'')
     = Some JNull
   \<and> \<not> dict_mem (JStr wu) [(JStr ''canny'', JStr ''control_canny''), (JStr ''None'', JNull)]
   \<and> last [(JStr ''canny'', JStr ''control_canny''), (JStr ''None'', JNull)] = (JStr ''None'', JNull)"
proof -
  let ?w = "start_world net_catalog_then_errors"
  let ?d = "[(JStr ''canny'', JStr ''control_canny''), (JStr ''None'', JNull)]"
  let ?its = "[JDict [(''display_value'', JStr wu), (''real_value'', JNull)],
        JDict [(''display_value'', JStr ''canny''), (''real_value'', JStr ''control_canny'')]]"
  have h1: "fst (request_models ?w) = Inr ?d"
    unfolding request_models_example by simp
  have h2: "models_of catalog = Inr ?d \<and> feed_items ''4'' catalog = Inr ?its \<and>
       (\<forall>it\<in>set ?its. subscript it ''display_value'' \<noteq> Inr (JStr ''None''))"
    by (simp add: catalog_def models_of_def feed_items_def and_then_def dict_mem_def
        key_eq_def wu_def)
  from request_models_None_entry [of ?w ?d catalog ?its] h1 h2
  show ?thesis by blast
qed

text \<open>
  The claim as stated fails for the position of the entry: a feed that already has the
  display value \<^verbatim>\<open>"None"\<close> keeps that key where it first stood, and
  \<^verbatim>\<open>d.update({"None": None})\<close> only replaces its value.
\<close>

theorem request_models_None_not_last_counterexample:
  "fst (request_models (start_world (\<lambda>n. json_reply (envelope 200 catalog_none_first))))
     = Inr [(JStr ''None'', JNull), (JStr ''canny'', JStr ''control_canny'')]
   \<and> last [(JStr ''None'', JNull), (JStr ''canny'', JStr ''control_canny'')]
       \<noteq> (JStr ''None'', JNull)"
  by (simp add: request_models_def fetch_or_cached_def request_tss_def http_def io_bind_def
      io_read_def io_lift_def io_return_def io_raise_def json_of_def start_world_def
      json_reply_def envelope_def catalog_none_first_def models_of_def
      feed_items_def and_then_def dict_mem_def key_eq_def wu_def)

subsection \<open>Failed uploads\<close>

text \<open>
  C7. An upload one of whose phases fails (the registration POST raises, returns an
  HTTP error or an envelope whose code is not 200, or the PUT raises or returns an HTTP
  error) yields no storage key: \<^verbatim>\<open>upload_image_data\<close> raises or returns \<^verbatim>\<open>None\<close>.
  When the upload of the image or of the mask fails so, \<^verbatim>\<open>run_annotator\<close> ends with an
  exception and has sent no job descriptor.
\<close>

theorem failed_upload_aborts:
  "(upload_fails w
      \<longrightarrow> (case fst (upload_image_data persistent w) of Inl e \<Rightarrow> True | Inr key \<Rightarrow> key = JNull))
   \<and> (upload_fails w \<or> upload_fails (snd (upload_image_data False w))
      \<longrightarrow> (\<exists>e. fst (run_annotator modul pres pthr_a pthr_b t2i_w t2i_h pp rm w) = Inl e) \<and>
          \<not> list_ex is_PostCnet
              (sent_by (run_annotator modul pres pthr_a pthr_b t2i_w t2i_h pp rm) w))"
proof (rule conjI; rule impI)
  assume "upload_fails w"
  then show "case fst (upload_image_data persistent w) of Inl e \<Rightarrow> True | Inr key \<Rightarrow> key = JNull"
    using upload_image_data_fails [of w persistent] by (auto split: sum.splits)
next
  let ?run = "run_annotator modul pres pthr_a pthr_b t2i_w t2i_h pp rm"
  assume fails: "upload_fails w \<or> upload_fails (snd (upload_image_data False w))"
  obtain r1 w1 where u1: "upload_image_data False w = (r1, w1)"
    by (cases "upload_image_data False w")
  from upload_image_data_sent [of False w] u1 obtain rqs1 where s1: "sent w1 = sent w @ rqs1"
    "\<forall>rq\<in>set rqs1. \<not> is_PostCnet rq" by auto
  have goal: "(\<exists>e. fst (?run w) = Inl e) \<and> (\<exists>rqs. sent (snd (?run w)) = sent w @ rqs \<and>
      (\<forall>rq\<in>set rqs. \<not> is_PostCnet rq))"
  proof (cases r1)
    case (Inl e)
    then have "?run w = (Inl e, w1)" using u1 by (simp add: run_annotator_def io_bind_def)
    then show ?thesis using s1 by auto
  next
    case k1: (Inr image_key)
    obtain r2 w2 where u2: "upload_image_data False w1 = (r2, w2)"
      by (cases "upload_image_data False w1")
    from upload_image_data_sent [of False w1] u2 obtain rqs2 where s2: "sent w2 = sent w1 @ rqs2"
      "\<forall>rq\<in>set rqs2. \<not> is_PostCnet rq" by auto
    have s: "sent w2 = sent w @ (rqs1 @ rqs2)" "\<forall>rq\<in>set (rqs1 @ rqs2). \<not> is_PostCnet rq"
      using s1 s2 by auto
    show ?thesis
    proof (cases r2)
      case (Inl e)
      then have "?run w = (Inl e, w2)" using u1 u2 k1 by (simp add: run_annotator_def io_bind_def)
      then show ?thesis using s by (metis fst_conv snd_conv)
    next
      case k2: (Inr mask_key)
      from fails have "image_key = JNull \<or> mask_key = JNull"
        using upload_image_data_fails [of w False image_key]
          upload_image_data_fails [of w1 False mask_key] u1 u2 k1 k2 by auto
      then have "\<not> truthy image_key \<or> \<not> truthy mask_key" by auto
      then have "?run w = (Inl UploadImageFileFailed, w2)"
        using u1 u2 k1 k2 by (auto simp: run_annotator_def io_bind_def io_raise_def)
      then show ?thesis using s by (metis fst_conv snd_conv)
    qed
  qed
  then obtain rqs where "sent (snd (?run w)) = sent w @ rqs" "\<forall>rq\<in>set rqs. \<not> is_PostCnet rq"
    by blast
  then have "\<not> list_ex is_PostCnet (sent_by ?run w)"
    by (simp add: sent_by_def list_ex_iff)
  with goal show "(\<exists>e. fst (?run w) = Inl e) \<and> \<not> list_ex is_PostCnet (sent_by ?run w)"
    by blast
qed

text \<open>The first upload in the world \<open>start_world net_second_upload_fails\<close> succeeds.\<close>

lemma upload_image_data_example:
  "upload_image_data False (start_world net_second_upload_fails) =
     (Inr (JStr ''k1.png''),
      (start_world net_second_upload_fails)\<lparr>
         sent := [PostOssFiles False, Put ''https://oss.example/put''], clock := 2\<rparr>)"
  by (simp add: upload_image_data_def http_def io_bind_def io_lift_def io_return_def
      json_of_def start_world_def net_second_upload_fails_def json_reply_def envelope_def
      sendable_url_def space_len_def is_space_def lower_def url_host_def startswith_def)

theorem failed_upload_aborts_witness:
  "fst (upload_image_data False (start_world net_upload_rejected)) = Inr JNull
   \<and> (\<exists>e. fst (run_annotator (JStr ''canny'') (JInt 512) (JInt 1) (JInt 2) (JInt 512) (JInt 512)
         (JBool False) (JInt 1) (start_world net_upload_rejected)) = Inl e)
   \<and> \<not> list_ex is_PostCnet (sent_by (run_annotator (JStr ''canny'') (JInt 512) (JInt 1) (JInt 2)
         (JInt 512) (JInt 512) (JBool False) (JInt 1)) (start_world net_upload_rejected))
   \<and> (\<exists>e. fst (run_annotator (JStr ''canny'') (JInt 512) (JInt 1) (JInt 2) (JInt 512) (JInt 512)
         (JBool False) (JInt 1) (start_world net_second_upload_fails)) = Inl e)
   \<and> \<not> list_ex is_PostCnet (sent_by (run_annotator (JStr ''canny'') (JInt 512) (JInt 1) (JInt 2)
         (JInt 512) (JInt 512) (JBool False) (JInt 1)) (start_world net_second_upload_fails))"
proof -
  let ?a = "start_world net_upload_rejected"
  let ?b = "start_world net_second_upload_fails"
  have ha: "upload_fails ?a"
    by (simp add: upload_fails_def registration_ok_def next_reply_def start_world_def
        net_upload_rejected_def json_reply_def envelope_def)
  have hb: "upload_fails (snd (upload_image_data False ?b))"
    unfolding upload_image_data_example
    by (simp add: upload_fails_def registration_ok_def
        next_reply_def start_world_def net_second_upload_fails_def http_error_reply_def)
  have key: "fst (upload_image_data False ?a) = Inr JNull"
    by (simp add: upload_image_data_def http_def io_bind_def io_lift_def io_return_def
        json_of_def start_world_def net_upload_rejected_def json_reply_def envelope_def)
  from failed_upload_aborts [of ?a False "JStr ''canny''" "JInt 512" "JInt 1" "JInt 2"
      "JInt 512" "JInt 512" "JBool False" "JInt 1"] ha
  have a: "(\<exists>e. fst (run_annotator (JStr ''canny'') (JInt 512) (JInt 1) (JInt 2) (JInt 512) (JInt 512)
         (JBool False) (JInt 1) ?a) = Inl e)
   \<and> \<not> list_ex is_PostCnet (sent_by (run_annotator (JStr ''canny'') (JInt 512) (JInt 1) (JInt 2)
         (JInt 512) (JInt 512) (JBool False) (JInt 1)) ?a)"
    by blast
  from failed_upload_aborts [of ?b False "JStr ''canny''" "JInt 512" "JInt 1" "JInt 2"
      "JInt 512" "JInt 512" "JBool False" "JInt 1"] hb
  have b: "(\<exists>e. fst (run_annotator (JStr ''canny'') (JInt 512) (JInt 1) (JInt 2) (JInt 512) (JInt 512)
         (JBool False) (JInt 1) ?b) = Inl e)
   \<and> \<not> list_ex is_PostCnet (sent_by (run_annotator (JStr ''canny'') (JInt 512) (JInt 1) (JInt 2)
         (JInt 512) (JInt 512) (JBool False) (JInt 1)) ?b)"
    by blast
  from key a b show ?thesis by blast
qed

subsection \<open>Dispatch\<close>

text \<open>
  C8. \<^verbatim>\<open>enable()\<close> holds exactly when the option \<^verbatim>\<open>xz_ext_enable\<close> is set and the
  worker flag is not. With the worker flag set \<^verbatim>\<open>enable()\<close> is false whatever the
  remote flag, and \<^verbatim>\<open>run_annotator\<close> on an image is the local strategy: its result is
  the one of the in-process call and nothing is sent. With \<^verbatim>\<open>enable()\<close> true it is the
  remote strategy.
\<close>

theorem enable_iff_remote_and_not_worker:
  "(enable cfg \<longleftrightarrow> xz_ext_enable cfg = Some True \<and> \<not> worker cfg)
   \<and> (worker (conf w) \<longrightarrow>
        \<not> enable (conf w) \<and>
        ui_run_annotator ext (Some img_in) module0 pres pthr_a pthr_b t2i_w t2i_h pp rm w =
          (run_local ext img_in module0 pres pthr_a pthr_b t2i_w t2i_h pp rm, w))
   \<and> (enable (conf w) \<longrightarrow>
        ui_run_annotator ext (Some img_in) module0 pres pthr_a pthr_b t2i_w t2i_h pp rm w =
          run_remote ext module0 pres pthr_a pthr_b t2i_w t2i_h pp rm w)"
  by (auto simp: enable_def ui_run_annotator_def io_bind_def io_read_def io_lift_def
      split: option.splits)

theorem enable_iff_remote_and_not_worker_witness:
  "\<not> enable (conf worker_world)
   \<and> ui_run_annotator example_externals (Some \<lparr>image = 7, mask = 0\<rparr>) ''reference_only''
        (JInt 512) (JInt 64) (JInt 64) (JInt 512) (JInt 512) False (JInt 1) worker_world =
      (run_local example_externals \<lparr>image = 7, mask = 0\<rparr> ''reference_only''
        (JInt 512) (JInt 64) (JInt 64) (JInt 512) (JInt 512) False (JInt 1), worker_world)
   \<and> ui_run_annotator example_externals (Some \<lparr>image = 7, mask = 0\<rparr>) ''reference_only''
        (JInt 512) (JInt 64) (JInt 64) (JInt 512) (JInt 512) False (JInt 1)
        (start_world net_unreachable) =
      run_remote example_externals ''reference_only''
        (JInt 512) (JInt 64) (JInt 64) (JInt 512) (JInt 512) False (JInt 1)
        (start_world net_unreachable)"
proof -
  have h1: "worker (conf worker_world)"
    by (simp add: worker_world_def)
  have h2: "enable (conf (start_world net_unreachable))"
    by (simp add: start_world_def enable_def)
  from enable_iff_remote_and_not_worker [of "conf worker_world" worker_world example_externals
      "\<lparr>image = 7, mask = 0\<rparr>" "''reference_only''" "JInt 512" "JInt 64" "JInt 64" "JInt 512"
      "JInt 512" False "JInt 1"] h1
  have a: "\<not> enable (conf worker_world) \<and>
      ui_run_annotator example_externals (Some \<lparr>image = 7, mask = 0\<rparr>) ''reference_only''
        (JInt 512) (JInt 64) (JInt 64) (JInt 512) (JInt 512) False (JInt 1) worker_world =
      (run_local example_externals \<lparr>image = 7, mask = 0\<rparr> ''reference_only''
        (JInt 512) (JInt 64) (JInt 64) (JInt 512) (JInt 512) False (JInt 1), worker_world)"
    by blast
  from enable_iff_remote_and_not_worker [of "conf worker_world" "start_world net_unreachable"
      example_externals "\<lparr>image = 7, mask = 0\<rparr>" "''reference_only''" "JInt 512" "JInt 64"
      "JInt 64" "JInt 512" "JInt 512" False "JInt 1"] h2
  have b: "ui_run_annotator example_externals (Some \<lparr>image = 7, mask = 0\<rparr>) ''reference_only''
        (JInt 512) (JInt 64) (JInt 64) (JInt 512) (JInt 512) False (JInt 1)
        (start_world net_unreachable) =
      run_remote example_externals ''reference_only''
        (JInt 512) (JInt 64) (JInt 64) (JInt 512) (JInt 512) False (JInt 1)
        (start_world net_unreachable)"
    by blast
  from a b show ?thesis by blast
qed

subsection \<open>The JSON callback\<close>

text \<open>
  C9. When the resolved module has a registered preprocessor \<open>p\<close>, the local strategy
  makes one call of \<open>p\<close>, and the argument \<^verbatim>\<open>json_pose_callback\<close> of that call is
  \<^verbatim>\<open>json_acceptor.accept\<close> exactly when the resolved module name contains
  \<^verbatim>\<open>openpose\<close>, and \<^verbatim>\<open>None\<close> exactly when it does not: what \<^verbatim>\<open>run_annotator\<close> returns
  with remote execution off is built from what \<open>p\<close> returns on these arguments. When no
  preprocessor is registered under the name, no call is made and \<^verbatim>\<open>run_annotator\<close>
  raises.
\<close>

theorem json_callback_only_for_openpose:
  "(preprocessors ext (get_module_basename ext module0) = Some p \<longrightarrow>
      (\<exists>inv. local_call ext img_in module0 pres pthr_a pthr_b t2i_w t2i_h pp rm =
                Inr (get_module_basename ext module0, p, inv) \<and>
         (inv_json_pose_callback inv = Some JsonAcceptorAccept \<longleftrightarrow>
            (\<exists>pre suf. get_module_basename ext module0 = pre @ ''openpose'' @ suf)) \<and>
         (inv_json_pose_callback inv = None \<longleftrightarrow>
            \<not> (\<exists>pre suf. get_module_basename ext module0 = pre @ ''openpose'' @ suf)) \<and>
         run_local ext img_in module0 pres pthr_a pthr_b t2i_w t2i_h pp rm =
           Inr (finish_local ext (get_module_basename ext module0) inv (p inv)) \<and>
         (\<not> enable (conf w) \<longrightarrow>
            ui_run_annotator ext (Some img_in) module0 pres pthr_a pthr_b t2i_w t2i_h pp rm w =
              (Inr (finish_local ext (get_module_basename ext module0) inv (p inv)), w))))
   \<and> (preprocessors ext (get_module_basename ext module0) = None \<longrightarrow>
        local_call ext img_in module0 pres pthr_a pthr_b t2i_w t2i_h pp rm =
          Inl (KeyError (JStr (get_module_basename ext module0))) \<and>
        run_local ext img_in module0 pres pthr_a pthr_b t2i_w t2i_h pp rm =
          Inl (KeyError (JStr (get_module_basename ext module0))) \<and>
        (\<not> enable (conf w) \<longrightarrow>
           ui_run_annotator ext (Some img_in) module0 pres pthr_a pthr_b t2i_w t2i_h pp rm w =
             (Inl (KeyError (JStr (get_module_basename ext module0))), w)))"
  by (simp add: ui_run_annotator_def run_local_def local_call_def Let_def is_openpose_def
      str_contains_iff and_then_def io_bind_def io_read_def io_lift_def)

theorem json_callback_only_for_openpose_witness:
  "(\<exists>inv. local_call example_externals \<lparr>image = 7, mask = 0\<rparr> ''openpose_full''
        (JInt 512) (JInt 64) (JInt 64) (JInt 512) (JInt 512) False (JInt 1) =
          Inr (''openpose_full'', \<lambda>inv. (inv_img inv, True, Some ''{}''), inv) \<and>
        inv_json_pose_callback inv = Some JsonAcceptorAccept \<and>
        ui_run_annotator example_externals (Some \<lparr>image = 7, mask = 0\<rparr>) ''openpose_full''
          (JInt 512) (JInt 64) (JInt 64) (JInt 512) (JInt 512) False (JInt 1) local_world =
          (Inr (finish_local example_externals ''openpose_full'' inv (inv_img inv, True, Some ''{}'')),
           local_world))
   \<and> (\<exists>inv. local_call example_externals \<lparr>image = 7, mask = 0\<rparr> ''depth''
        (JInt 512) (JInt 64) (JInt 64) (JInt 512) (JInt 512) False (JInt 1) =
          Inr (''depth'', \<lambda>inv. (inv_img inv, True, Some ''{}''), inv) \<and>
        inv_json_pose_callback inv = None \<and>
        ui_run_annotator example_externals (Some \<lparr>image = 7, mask = 0\<rparr>) ''depth''
          (JInt 512) (JInt 64) (JInt 64) (JInt 512) (JInt 512) False (JInt 1) local_world =
          (Inr (finish_local example_externals ''depth'' inv (inv_img inv, True, Some ''{}'')),
           local_world))
   \<and> ui_run_annotator example_externals (Some \<lparr>image = 7, mask = 0\<rparr>) ''canny''
        (JInt 512) (JInt 64) (JInt 64) (JInt 512) (JInt 512) False (JInt 1) local_world =
          (Inl (KeyError (JStr ''canny'')), local_world)"
proof -
  let ?e = example_externals
  let ?p = "\<lambda>inv :: nat invocation. (inv_img inv, True, Some ''{}'')"
  have b: "get_module_basename ?e m = m" for m
    by (simp add: example_externals_def)
  have off: "\<not> enable (conf local_world)"
    by (simp add: local_world_def enable_def)
  have p1: "preprocessors ?e (get_module_basename ?e ''openpose_full'') = Some ?p"
    by (simp add: example_externals_def)
  have p2: "preprocessors ?e (get_module_basename ?e ''depth'') = Some ?p"
    by (simp add: example_externals_def)
  have p3: "preprocessors ?e (get_module_basename ?e ''canny'') = None"
    by (simp add: example_externals_def)
  have o1: "\<exists>pre suf. ''openpose_full'' = pre @ ''openpose'' @ suf"
    unfolding str_contains_iff [symmetric] by (simp add: startswith_def)
  have o2: "\<not> (\<exists>pre suf. ''depth'' = pre @ ''openpose'' @ suf)"
    unfolding str_contains_iff [symmetric] by (simp add: startswith_def)
  from json_callback_only_for_openpose [of ?e "''openpose_full''" ?p
      "\<lparr>image = 7, mask = 0\<rparr>" "JInt 512" "JInt 64" "JInt 64" "JInt 512" "JInt 512" False
      "JInt 1" local_world] p1 o1 off
  have a1: "\<exists>inv. local_call ?e \<lparr>image = 7, mask = 0\<rparr> ''openpose_full''
        (JInt 512) (JInt 64) (JInt 64) (JInt 512) (JInt 512) False (JInt 1) =
          Inr (''openpose_full'', ?p, inv) \<and>
        inv_json_pose_callback inv = Some JsonAcceptorAccept \<and>
        ui_run_annotator ?e (Some \<lparr>image = 7, mask = 0\<rparr>) ''openpose_full''
          (JInt 512) (JInt 64) (JInt 64) (JInt 512) (JInt 512) False (JInt 1) local_world =
          (Inr (finish_local ?e ''openpose_full'' inv (inv_img inv, True, Some ''{}'')),
           local_world)"
    unfolding b by blast
  from json_callback_only_for_openpose [of ?e "''depth''" ?p
      "\<lparr>image = 7, mask = 0\<rparr>" "JInt 512" "JInt 64" "JInt 64" "JInt 512" "JInt 512" False
      "JInt 1" local_world] p2 o2 off
  have a2: "\<exists>inv. local_call ?e \<lparr>image = 7, mask = 0\<rparr> ''depth''
        (JInt 512) (JInt 64) (JInt 64) (JInt 512) (JInt 512) False (JInt 1) =
          Inr (''depth'', ?p, inv) \<and>
        inv_json_pose_callback inv = None \<and>
        ui_run_annotator ?e (Some \<lparr>image = 7, mask = 0\<rparr>) ''depth''
          (JInt 512) (JInt 64) (JInt 64) (JInt 512) (JInt 512) False (JInt 1) local_world =
          (Inr (finish_local ?e ''depth'' inv (inv_img inv, True, Some ''{}'')),
           local_world)"
    unfolding b by blast
  from json_callback_only_for_openpose [of ?e "''canny''" undefined
      "\<lparr>image = 7, mask = 0\<rparr>" "JInt 512" "JInt 64" "JInt 64" "JInt 512" "JInt 512" False
      "JInt 1" local_world] p3 off
  have a3: "ui_run_annotator ?e (Some \<lparr>image = 7, mask = 0\<rparr>) ''canny''
        (JInt 512) (JInt 64) (JInt 64) (JInt 512) (JInt 512) False (JInt 1) local_world =
          (Inl (KeyError (JStr ''canny'')), local_world)"
    unfolding b by blast
  from a1 a2 a3 show ?thesis by blast
qed

text \<open>
  The two calls above, as the interface shows them: the JSON string of the pose reaches
  the editor for the module with the callback, and does not for the module without it,
  though its preprocessor emits one.
\<close>

lemma ui_run_annotator_example:
  "openpose_json (projr (fst (ui_run_annotator example_externals (Some \<lparr>image = 7, mask = 0\<rparr>)
      ''openpose_full'' (JInt 512) (JInt 64) (JInt 64) (JInt 512) (JInt 512) False (JInt 1)
      local_world))) = ''{}''"
  "openpose_json (projr (fst (ui_run_annotator example_externals (Some \<lparr>image = 7, mask = 0\<rparr>)
      ''depth'' (JInt 512) (JInt 64) (JInt 64) (JInt 512) (JInt 512) False (JInt 1)
      local_world))) = []"
  by (simp_all add: ui_run_annotator_def run_local_def local_call_def finish_local_def
      io_bind_def io_read_def io_lift_def and_then_def example_externals_def local_world_def
      start_world_def enable_def is_openpose_def startswith_def Let_def)

subsection \<open>Refreshing the model list\<close>

lemma request_models_cn_models: "cn_models (snd (request_models w)) = cn_models w"
  by (simp add: request_models_run fetch_or_cached_run request_tss_snd
      split: prod.split sum.split)

lemma request_models_distinct:
  assumes "fst (request_models w) = Inr models"
  shows "distinct (norm_keys models)"
  using request_models_success [OF assms] models_of_result(3) by blast

lemma refresh_all_models_remote:
  assumes "enable (conf w)" and "hashable dd"
    and "fst (request_models (w\<lparr>cn_models := []\<rparr>)) = Inr models"
  shows "fst (refresh_all_models dd w) =
        Inr (gr_update\<lparr>u_value := Some (if dict_mem dd models then dd else JStr ''None''),
                       u_choices := Some (dict_keys models)\<rparr>) \<and>
      cn_models (snd (refresh_all_models dd w)) = models"
proof -
  obtain w1 where run: "request_models (w\<lparr>cn_models := []\<rparr>) = (Inr models, w1)"
    using assms(3) by (cases "request_models (w\<lparr>cn_models := []\<rparr>)") auto
  have empty: "cn_models w1 = []"
    using request_models_cn_models [of "w\<lparr>cn_models := []\<rparr>"] run by simp
  have "distinct (norm_keys ([] @ models))"
    using assms(3) request_models_distinct [of "w\<lparr>cn_models := []\<rparr>" models] by simp
  then have upd: "dict_update [] models = models"
    using dict_update_fresh [of "[]" models] by simp
  show ?thesis
    using assms(1,2) by (simp add: refresh_all_models_def io_bind_def io_read_def io_lift_def
        io_return_def py_in_def run empty upd)
qed

lemma refresh_all_models_local:
  assumes "\<not> enable (conf w)" and "hashable dd"
  shows "fst (refresh_all_models dd w) =
        Inr (gr_update\<lparr>u_value := Some (if dict_mem dd (scan_models w) then dd else JStr ''None''),
                       u_choices := Some (dict_keys (scan_models w))\<rparr>) \<and>
      cn_models (snd (refresh_all_models dd w)) = scan_models w"
  using assms
  by (simp add: refresh_all_models_def io_bind_def io_read_def io_lift_def
      io_return_def py_in_def update_cn_models_def)

lemma refresh_all_models_returns:
  assumes "fst (refresh_all_models dd w) = Inr upd"
  shows "hashable dd"
    and "enable (conf w) \<Longrightarrow> \<exists>models. fst (request_models (w\<lparr>cn_models := []\<rparr>)) = Inr models"
proof -
  show "hashable dd"
    using assms
    by (cases "request_models (w\<lparr>cn_models := []\<rparr>)")
      (auto simp: refresh_all_models_def io_bind_def io_read_def io_lift_def
        io_return_def py_in_def update_cn_models_def split: sum.splits if_splits)
  show "\<exists>models. fst (request_models (w\<lparr>cn_models := []\<rparr>)) = Inr models" if "enable (conf w)"
    using assms that
    by (cases "request_models (w\<lparr>cn_models := []\<rparr>)")
      (auto simp: refresh_all_models_def io_bind_def io_read_def io_lift_def
        io_return_def split: sum.splits)
qed

lemma refresh_all_models_raises:
  assumes "enable (conf w)" and "fst (request_models (w\<lparr>cn_models := []\<rparr>)) = Inl e"
  shows "fst (refresh_all_models dd w) = Inl e \<and> cn_models (snd (refresh_all_models dd w)) = []"
proof -
  obtain w1 where run: "request_models (w\<lparr>cn_models := []\<rparr>) = (Inl e, w1)"
    using assms(2) by (cases "request_models (w\<lparr>cn_models := []\<rparr>)") auto
  have empty: "cn_models w1 = []"
    using request_models_cn_models [of "w\<lparr>cn_models := []\<rparr>"] run by simp
  show ?thesis
    using assms(1) by (simp add: refresh_all_models_def io_bind_def io_read_def run empty)
qed

text \<open>
  C10, as amended. Whenever \<^verbatim>\<open>refresh_all_models\<close> returns a dropdown update, its
  value is the previously selected value \<open>dd\<close> if that is a key of the refreshed
  \<^verbatim>\<open>cn_models\<close> and \<^verbatim>\<open>"None"\<close> otherwise, and its choices are the keys of the
  refreshed \<^verbatim>\<open>cn_models\<close>, in order. It returns one on the remote path when the fetch
  of the catalog succeeds, the refreshed mapping being the fetched one, and on the local
  path always, the refreshed mapping being the rescanned one (the value of a dropdown is
  hashable). When the fetch fails on the remote path, the refresh ends with the
  exception of the fetch, after \<^verbatim>\<open>cn_models\<close> has been cleared: there is no update, and
  \<^verbatim>\<open>cn_models\<close> is left empty.
\<close>

theorem refresh_all_models_selection:
  "(fst (refresh_all_models dd w) = Inr upd \<longrightarrow>
      u_value upd =
        Some (if dict_mem dd (cn_models (snd (refresh_all_models dd w))) then dd
              else JStr ''None'') \<and>
      u_choices upd = Some (dict_keys (cn_models (snd (refresh_all_models dd w)))))
   \<and> (enable (conf w) \<and> hashable dd \<and>
        fst (request_models (w\<lparr>cn_models := []\<rparr>)) = Inr models \<longrightarrow>
      fst (refresh_all_models dd w) =
        Inr (gr_update\<lparr>u_value := Some (if dict_mem dd models then dd else JStr ''None''),
                       u_choices := Some (dict_keys models)\<rparr>) \<and>
      cn_models (snd (refresh_all_models dd w)) = models)
   \<and> (\<not> enable (conf w) \<and> hashable dd \<longrightarrow>
      fst (refresh_all_models dd w) =
        Inr (gr_update\<lparr>u_value := Some (if dict_mem dd (scan_models w) then dd else JStr ''None''),
                       u_choices := Some (dict_keys (scan_models w))\<rparr>) \<and>
      cn_models (snd (refresh_all_models dd w)) = scan_models w)
   \<and> (enable (conf w) \<and> fst (request_models (w\<lparr>cn_models := []\<rparr>)) = Inl e \<longrightarrow>
      fst (refresh_all_models dd w) = Inl e \<and>
      cn_models (snd (refresh_all_models dd w)) = [])"
proof (intro conjI)
  show "fst (refresh_all_models dd w) = Inr upd \<longrightarrow>
      u_value upd =
        Some (if dict_mem dd (cn_models (snd (refresh_all_models dd w))) then dd
              else JStr ''None'') \<and>
      u_choices upd = Some (dict_keys (cn_models (snd (refresh_all_models dd w))))"
  proof
    assume r: "fst (refresh_all_models dd w) = Inr upd"
    note h = refresh_all_models_returns [OF r]
    show "u_value upd =
        Some (if dict_mem dd (cn_models (snd (refresh_all_models dd w))) then dd
              else JStr ''None'') \<and>
      u_choices upd = Some (dict_keys (cn_models (snd (refresh_all_models dd w))))"
    proof (cases "enable (conf w)")
      case True
      with h(2) obtain models where
        "fst (request_models (w\<lparr>cn_models := []\<rparr>)) = Inr models" by blast
      from refresh_all_models_remote [OF True h(1) this] r show ?thesis
        by (auto simp: gr_update_def)
    next
      case False
      from refresh_all_models_local [OF False h(1)] r show ?thesis
        by (auto simp: gr_update_def)
    qed
  qed
next
  show "enable (conf w) \<and> hashable dd \<and>
        fst (request_models (w\<lparr>cn_models := []\<rparr>)) = Inr models \<longrightarrow>
      fst (refresh_all_models dd w) =
        Inr (gr_update\<lparr>u_value := Some (if dict_mem dd models then dd else JStr ''None''),
                       u_choices := Some (dict_keys models)\<rparr>) \<and>
      cn_models (snd (refresh_all_models dd w)) = models"
    using refresh_all_models_remote by blast
next
  show "\<not> enable (conf w) \<and> hashable dd \<longrightarrow>
      fst (refresh_all_models dd w) =
        Inr (gr_update\<lparr>u_value := Some (if dict_mem dd (scan_models w) then dd else JStr ''None''),
                       u_choices := Some (dict_keys (scan_models w))\<rparr>) \<and>
      cn_models (snd (refresh_all_models dd w)) = scan_models w"
    using refresh_all_models_local by blast
next
  show "enable (conf w) \<and> fst (request_models (w\<lparr>cn_models := []\<rparr>)) = Inl e \<longrightarrow>
      fst (refresh_all_models dd w) = Inl e \<and>
      cn_models (snd (refresh_all_models dd w)) = []"
    using refresh_all_models_raises by blast
qed

theorem refresh_all_models_selection_witness:
  "fst (refresh_all_models (JStr ''canny'') (start_world net_catalog_then_errors)) =
     Inr (gr_update\<lparr>u_value := Some (JStr ''canny''),
                    u_choices := Some [JStr ''canny'', JStr ''None'']\<rparr>)
   \<and> cn_models (snd (refresh_all_models (JStr ''canny'') (start_world net_catalog_then_errors)))
       = [(JStr ''canny'', JStr ''control_canny''), (JStr ''None'', JNull)]
   \<and> fst (refresh_all_models (JStr ''canny'') local_world) =
     Inr (gr_update\<lparr>u_value := Some (JStr ''None''),
                    u_choices := Some [JStr ''None'', JStr ''local_canny'']\<rparr>)
   \<and> u_value (projr (fst (refresh_all_models (JStr ''canny'') local_world))) =
       Some (if dict_mem (JStr ''canny'')
                  (cn_models (snd (refresh_all_models (JStr ''canny'') local_world)))
             then JStr ''canny'' else JStr ''None'')
   \<and> fst (refresh_all_models (JStr ''canny'') (start_world net_not_json)) = Inl JSONDecodeError
   \<and> cn_models (snd (refresh_all_models (JStr ''canny'') (start_world net_not_json))) = []"
proof -
  let ?s = "start_world net_catalog_then_errors"
  let ?n = "start_world net_not_json"
  let ?m = "[(JStr ''canny'', JStr ''control_canny''), (JStr ''None'', JNull)]"
  let ?u = "gr_update\<lparr>u_value := Some (JStr ''None''),
                    u_choices := Some [JStr ''None'', JStr ''local_canny'']\<rparr> :: jvalue gr_update"
  have same: "?s\<lparr>cn_models := []\<rparr> = ?s"
    by (simp add: start_world_def)
  have h1: "enable (conf ?s) \<and> hashable (JStr ''canny'') \<and>
      fst (request_models (?s\<lparr>cn_models := []\<rparr>)) = Inr ?m"
    unfolding same request_models_example by (simp add: start_world_def enable_def)
  have h2: "\<not> enable (conf local_world) \<and> hashable (JStr ''canny'')"
    by (simp add: local_world_def enable_def)
  have h3: "enable (conf ?n) \<and> fst (request_models (?n\<lparr>cn_models := []\<rparr>)) = Inl JSONDecodeError"
    by (simp add: request_models_def fetch_or_cached_def request_tss_def http_def io_bind_def
        io_read_def io_lift_def json_of_def start_world_def net_not_json_def enable_def)
  from refresh_all_models_selection [of "JStr ''canny''" ?s undefined ?m] h1
  have a: "fst (refresh_all_models (JStr ''canny'') ?s) =
     Inr (gr_update\<lparr>u_value := Some (JStr ''canny''),
                    u_choices := Some [JStr ''canny'', JStr ''None'']\<rparr>)
     \<and> cn_models (snd (refresh_all_models (JStr ''canny'') ?s)) = ?m"
    by (simp add: dict_mem_def key_eq_def dict_keys_def)
  from refresh_all_models_selection [of "JStr ''canny''" local_world ?u ?m] h2
  have b: "fst (refresh_all_models (JStr ''canny'') local_world) = Inr ?u"
    by (simp add: dict_mem_def key_eq_def dict_keys_def local_world_def start_world_def)
  from refresh_all_models_selection [of "JStr ''canny''" local_world ?u ?m] b
  have c: "u_value ?u =
       Some (if dict_mem (JStr ''canny'')
                  (cn_models (snd (refresh_all_models (JStr ''canny'') local_world)))
             then JStr ''canny'' else JStr ''None'')"
    by blast
  from refresh_all_models_selection [of "JStr ''canny''" ?n undefined ?m JSONDecodeError] h3
  have d: "fst (refresh_all_models (JStr ''canny'') ?n) = Inl JSONDecodeError \<and>
      cn_models (snd (refresh_all_models (JStr ''canny'') ?n)) = []"
    by blast
  from a b c d show ?thesis by simp
qed

text \<open>
  The claim as stated fails on the remote path when the service cannot be reached: the
  handler has cleared \<^verbatim>\<open>cn_models\<close>, the exception of \<^verbatim>\<open>requests.get\<close> leaves it, and
  there is no dropdown update; the models that were offered are gone.
\<close>

theorem refresh_all_models_raises_counterexample:
  "enable (conf ((start_world net_unreachable)\<lparr>cn_models :=
        [(JStr ''None'', JNull), (JStr ''canny'', JStr ''control_canny'')]\<rparr>))
   \<and> refresh_all_models (JStr ''canny'') ((start_world net_unreachable)\<lparr>cn_models :=
        [(JStr ''None'', JNull), (JStr ''canny'', JStr ''control_canny'')]\<rparr>)
     = (Inl RequestException,
        (start_world net_unreachable)\<lparr>
          sent := [Get ''https://tss.example/v1/samplers/category?categorys=4''],
          clock := 5, cn_models := []\<rparr>)"
  by (simp add: refresh_all_models_def request_models_def fetch_or_cached_def request_tss_def
      http_def io_bind_def io_read_def start_world_def net_unreachable_def no_reply_def
      enable_def)

subsection \<open>Model-free modules\<close>

lemma build_sliders_model_free:
  assumes "build_sliders ext module0 pp = Inr grs"
    and "get_module_basename ext module0 \<in> set (model_free_preprocessors ext)"
  shows "\<exists>pre. grs = pre @ [gr_update\<lparr>u_visible := Some False, u_value := Some (JStr ''None'')\<rparr>,
                            gr_update\<lparr>u_visible := Some False\<rparr>]"
  using assms
  by (auto simp: build_sliders_def Let_def and_then_def split: sum.splits option.splits)

lemma click_trigger_preprocessor_example:
  "click_trigger_preprocessor example_externals example_components local_world =
     (Inr (example_components\<lparr>c_generated_image := Some 7, c_preprocessor_preview := True\<rparr>),
      local_world)"
  by (simp add: click_trigger_preprocessor_def ui_run_annotator_def run_local_def
      local_call_def finish_local_def io_bind_def io_read_def io_lift_def io_return_def
      and_then_def example_components_def example_externals_def local_world_def start_world_def enable_def
      is_openpose_def startswith_def new_value_def gr_update_def Let_def)

text \<open>
  C4, as amended. When the module selection changes to a module whose base name is in
  the model-free set, \<^verbatim>\<open>build_sliders\<close> ends with the updates
  \<^verbatim>\<open>gr.update(visible=False, value="None")\<close> for the model dropdown and
  \<^verbatim>\<open>gr.update(visible=False)\<close> for the refresh button, so the model selection becomes
  \<^verbatim>\<open>"None"\<close> and is hidden. The dispatch itself, \<^verbatim>\<open>run_annotator\<close>, has no model
  parameter: it leaves the module and the model selection as they are, and the call of
  the preprocessor carries no model argument.
\<close>

theorem model_free_module_resets_model:
  "(build_sliders ext module0 pp = Inr grs \<and>
      get_module_basename ext module0 \<in> set (model_free_preprocessors ext) \<longrightarrow>
      (\<exists>pre. grs = pre @ [gr_update\<lparr>u_visible := Some False, u_value := Some (JStr ''None'')\<rparr>,
                           gr_update\<lparr>u_visible := Some False\<rparr>]))
   \<and> (change_module ext module0 c = Inr c' \<and>
      get_module_basename ext module0 \<in> set (model_free_preprocessors ext) \<longrightarrow>
      c_module c' = module0 \<and> c_model c' = JStr ''None'' \<and> \<not> c_model_visible c')
   \<and> (fst (click_trigger_preprocessor ext c w) = Inr c'' \<longrightarrow>
      c_model c'' = c_model c \<and> c_module c'' = c_module c)"
proof (intro conjI)
  show "build_sliders ext module0 pp = Inr grs \<and>
      get_module_basename ext module0 \<in> set (model_free_preprocessors ext) \<longrightarrow>
      (\<exists>pre. grs = pre @ [gr_update\<lparr>u_visible := Some False, u_value := Some (JStr ''None'')\<rparr>,
                           gr_update\<lparr>u_visible := Some False\<rparr>])"
    using build_sliders_model_free by blast
next
  show "change_module ext module0 c = Inr c' \<and>
      get_module_basename ext module0 \<in> set (model_free_preprocessors ext) \<longrightarrow>
      c_module c' = module0 \<and> c_model c' = JStr ''None'' \<and> \<not> c_model_visible c'"
  proof
    assume a: "change_module ext module0 c = Inr c' \<and>
      get_module_basename ext module0 \<in> set (model_free_preprocessors ext)"
    then obtain grs where g: "build_sliders ext module0 (c_pixel_perfect c) = Inr grs"
      and len: "length grs = 6"
      and c': "c' = c\<lparr>c_module := module0,
                c_model := new_value (grs ! 4) (c_model c),
                c_model_visible := new_visible (grs ! 4) (c_model_visible c)\<rparr>"
      by (auto simp: change_module_def and_then_def split: sum.splits if_splits)
    from build_sliders_model_free [OF g] a obtain pre where
      pre: "grs = pre @ [gr_update\<lparr>u_visible := Some False, u_value := Some (JStr ''None'')\<rparr>,
                            gr_update\<lparr>u_visible := Some False\<rparr>]"
      by blast
    with len have "length pre = 4" by simp
    with pre have "grs ! 4 = gr_update\<lparr>u_visible := Some False, u_value := Some (JStr ''None'')\<rparr>"
      by (simp add: nth_append)
    then show "c_module c' = module0 \<and> c_model c' = JStr ''None'' \<and> \<not> c_model_visible c'"
      by (simp add: c' new_value_def new_visible_def gr_update_def)
  qed
next
  show "fst (click_trigger_preprocessor ext c w) = Inr c'' \<longrightarrow>
      c_model c'' = c_model c \<and> c_module c'' = c_module c"
    by (auto simp: click_trigger_preprocessor_def io_bind_def io_return_def
        split: prod.splits sum.splits)
qed

lemma build_sliders_example:
  "build_sliders example_externals ''reference_only'' False =
     Inr [gr_update\<lparr>u_label := Some (JStr ''Preprocessor Resolution''),
            u_value := Some (JInt 512), u_minimum := Some (JInt 64),
            u_maximum := Some (JInt 2048), u_step := Some (JInt 1),
            u_visible := Some True, u_interactive := Some True\<rparr>,
          hidden, hidden, shown,
          gr_update\<lparr>u_visible := Some False, u_value := Some (JStr ''None'')\<rparr>,
          gr_update\<lparr>u_visible := Some False\<rparr>]"
  by (simp add: build_sliders_def example_externals_def and_then_def)

theorem model_free_module_resets_model_witness:
  "c_model (projr (change_module example_externals ''reference_only'' example_components))
     = JStr ''None''
   \<and> \<not> c_model_visible (projr (change_module example_externals ''reference_only'' example_components))
   \<and> c_model (projr (fst (click_trigger_preprocessor example_externals example_components
        local_world))) = c_model example_components"
proof -
  let ?e = example_externals
  let ?c = example_components
  let ?g = "[gr_update\<lparr>u_label := Some (JStr ''Preprocessor Resolution''),
            u_value := Some (JInt 512), u_minimum := Some (JInt 64),
            u_maximum := Some (JInt 2048), u_step := Some (JInt 1),
            u_visible := Some True, u_interactive := Some True\<rparr>,
          hidden, hidden, shown,
          gr_update\<lparr>u_visible := Some False, u_value := Some (JStr ''None'')\<rparr>,
          gr_update\<lparr>u_visible := Some False\<rparr>]"
  let ?c1 = "projr (change_module ?e ''reference_only'' ?c)"
  let ?c2 = "projr (fst (click_trigger_preprocessor ?e ?c local_world))"
  have free: "get_module_basename ?e ''reference_only'' \<in> set (model_free_preprocessors ?e)"
    by (simp add: example_externals_def)
  have pp: "c_pixel_perfect ?c = False"
    by (simp add: example_components_def)
  have h2: "change_module ?e ''reference_only'' ?c = Inr ?c1"
    by (simp add: change_module_def pp build_sliders_example and_then_def)
  have h3: "fst (click_trigger_preprocessor ?e ?c local_world) = Inr ?c2"
    by (simp add: click_trigger_preprocessor_example)
  from model_free_module_resets_model
    [of ?e "''reference_only''" False ?g ?c ?c1 local_world ?c2]
    build_sliders_example free h2 h3
  show ?thesis by blast
qed

text \<open>
  The claim as stated fails at the dispatch: with a model-free module selected and a
  model still selected, the local strategy calls the preprocessor (the preview shows its
  result) and the model selection is what it was.
\<close>

theorem dispatch_keeps_model_counterexample:
  "get_module_basename example_externals (c_module example_components)
      \<in> set (model_free_preprocessors example_externals)
   \<and> \<not> enable (conf local_world)
   \<and> c_model example_components = JStr ''control_canny''
   \<and> fst (click_trigger_preprocessor example_externals example_components local_world) =
       Inr (example_components\<lparr>c_generated_image := Some 7, c_preprocessor_preview := True\<rparr>)
   \<and> c_model (example_components\<lparr>c_generated_image := Some 7, c_preprocessor_preview := True\<rparr>)
       = JStr ''control_canny''"
  unfolding click_trigger_preprocessor_example
  by (simp add: example_externals_def example_components_def local_world_def enable_def)

end
